theory Spec2Isabelle
  imports Complex_Main
begin

section \<open>Python values and the console\<close>

text \<open>
  A Python \<open>str\<close> is a list of code points; the model covers the code points below 256,
  one \<^typ>\<open>char\<close> each (so the degree sign U+00B0 is the single character \<open>CHR 0xB0\<close>).
  A Python \<open>float\<close> is idealised as an exact rational: the rounding of binary floating
  point is not modelled. The range is modelled where a conversion to \<open>float\<close> raises
  \<open>OverflowError\<close>.
\<close>

datatype pyerror =
    IndexError
  | ValueError
  | KeyError string
  | TypeError
  | AttributeError
  | OSError
  | EOFError
  | OverflowError

datatype message =
    Msg_loaded nat nat
  | Msg_load_error pyerror
  | Msg_convert_error pyerror
  | Msg_dms_detected
  | Msg_converted rat rat
  | Msg_prompt_type
  | Msg_prompt_description
  | Msg_coords_detected rat rat
  | Msg_bad_format
  | Msg_bad_number
  | Msg_error pyerror
  | Msg_pool_added string rat rat
  | Msg_no_pool_added string rat rat
  | Msg_invalid_type
  | Msg_saved string
  | Msg_total_pools nat
  | Msg_total_no_pools nat
  | Msg_save_error pyerror

text \<open>
  The world outside the collector: the files that exist with their text, which paths
  refuse to be opened for reading or for writing, the lines waiting on standard input,
  what has been printed so far, and the formatted time \<open>datetime.now()\<close> gives.
\<close>

record world =
  files :: "string \<Rightarrow> string option"
  read_denied :: "string \<Rightarrow> bool"
  write_denied :: "string \<Rightarrow> bool"
  stdin :: "string list"
  stdout :: "message list"
  clock :: string

definition print :: "message \<Rightarrow> world \<Rightarrow> world" where
  "print m w = w\<lparr>stdout := stdout w @ [m]\<rparr>"

text \<open>\<open>input(prompt)\<close>: print the prompt, then take one line or raise \<open>EOFError\<close>.\<close>

definition py_input :: "message \<Rightarrow> world \<Rightarrow> (pyerror + string) \<times> world" where
  "py_input prompt w =
     (let w1 = print prompt w in
      case stdin w1 of
        [] \<Rightarrow> (Inl EOFError, w1)
      | l # ls \<Rightarrow> (Inr l, w1\<lparr>stdin := ls\<rparr>))"

section \<open>String operations\<close>

definition degree_sign :: char where
  "degree_sign = CHR 0xB0"

definition apostrophe :: char where
  "apostrophe = CHR 0x27"

definition double_quote :: char where
  "double_quote = CHR 0x22"

text \<open>\<open>str.isspace\<close> on the code points below 256.\<close>

definition isspace :: "char \<Rightarrow> bool" where
  "isspace c = (of_char c \<in> {9, 10, 11, 12, 13, 28, 29, 30, 31, 32, 133, 160 :: nat})"

text \<open>The regular expression class \<open>\d\<close> on the code points below 256.\<close>

definition isdigit :: "char \<Rightarrow> bool" where
  "isdigit c = (48 \<le> (of_char c :: nat) \<and> (of_char c :: nat) \<le> 57)"

text \<open>\<open>s.split()\<close>: the maximal runs of non-whitespace characters.\<close>

fun split_acc :: "string \<Rightarrow> string \<Rightarrow> string list" where
  "split_acc cur [] = (if cur = [] then [] else [cur])"
| "split_acc cur (c # cs) =
     (if isspace c then (if cur = [] then split_acc [] cs else cur # split_acc [] cs)
      else split_acc (cur @ [c]) cs)"

definition split_ws :: "string \<Rightarrow> string list" where
  "split_ws s = split_acc [] s"

text \<open>\<open>s.split(sep)\<close> for a one-character separator: empty fields are kept.\<close>

fun split_sep :: "char \<Rightarrow> string \<Rightarrow> string \<Rightarrow> string list" where
  "split_sep sep cur [] = [cur]"
| "split_sep sep cur (c # cs) =
     (if c = sep then cur # split_sep sep [] cs else split_sep sep (cur @ [c]) cs)"

definition split_on :: "char \<Rightarrow> string \<Rightarrow> string list" where
  "split_on sep s = split_sep sep [] s"

definition strip :: "string \<Rightarrow> string" where
  "strip s = rev (dropWhile isspace (rev (dropWhile isspace s)))"

text \<open>\<open>str.lower\<close> on the code points below 256: A-Z and the accented capitals.\<close>

definition lower_char :: "char \<Rightarrow> char" where
  "lower_char c =
     (let n = (of_char c :: nat) in
      if (65 \<le> n \<and> n \<le> 90) \<or> (192 \<le> n \<and> n \<le> 222 \<and> n \<noteq> 215)
      then char_of (n + 32) else c)"

definition lower :: "string \<Rightarrow> string" where
  "lower s = map lower_char s"

text \<open>\<open>int(s)\<close> on a string of decimal digits.\<close>

definition digit_val :: "char \<Rightarrow> nat" where
  "digit_val c = of_char c - 48"

definition py_int :: "string \<Rightarrow> nat" where
  "py_int s = foldl (\<lambda>n c. 10 * n + digit_val c) 0 s"

section \<open>The values of the store and the library\<close>

text \<open>
  What \<open>json.load\<close> can return and \<open>json.dump\<close> can write. A \<open>dict\<close> keeps its keys in
  insertion order, so it is an association list.
\<close>

datatype json =
    JNull
  | JBool bool
  | JInt int
  | JFloat rat
  | JStr string
  | JList "json list"
  | JDict "(string \<times> json) list"

text \<open>
  The functions of Python's library that the collector calls and that are not part of
  the repository are parameters: \<open>float(s)\<close> (\<open>None\<close> for \<open>ValueError\<close>), the two ways a
  float is formatted (\<open>f"{x}"\<close> and \<open>f"{x:.4f}"\<close>), and the JSON writer and reader
  (\<open>None\<close> for an exception of the reader). \<open>int_max_str_digits\<close> is the interpreter's
  limit on the number of digits \<open>int(s)\<close> reads, \<open>sys.get_int_max_str_digits()\<close>: 4300 by
  default since Python 3.11, and 0 where there is no limit.
\<close>

record pylib =
  float_of_string :: "string \<Rightarrow> rat option"
  repr_float :: "rat \<Rightarrow> string"
  format_4f :: "rat \<Rightarrow> string"
  json_dumps :: "json \<Rightarrow> string"
  json_loads :: "string \<Rightarrow> json option"
  int_max_str_digits :: nat

section \<open>The DMS parser\<close>

text \<open>
  One group \<open>(\d+)\<close> followed by a literal character: the longest run of digits, which
  must not be empty, then the literal. The result is the group and the rest of the text.
\<close>

definition digits_then :: "char \<Rightarrow> string \<Rightarrow> (string \<times> string) option" where
  "digits_then lit s =
     (let ds = takeWhile isdigit s in
      if ds = [] then None
      else case dropWhile isdigit s of
             [] \<Rightarrow> None
           | c # r \<Rightarrow> if c = lit then Some (ds, r) else None)"

text \<open>
  \<open>re.match(r"(\d+)\<degree>(\d+)'(\d+)\"([NS])", s)\<close>, with the letters of the last group as
  a parameter: the pattern is matched at the start of \<open>s\<close>, and what follows the letter
  is not looked at. The result is the four groups.
\<close>

definition match_dms :: "string \<Rightarrow> string \<Rightarrow> (string \<times> string \<times> string \<times> char) option" where
  "match_dms dirs s =
     (case digits_then degree_sign s of
        None \<Rightarrow> None
      | Some (g1, r1) \<Rightarrow>
          (case digits_then apostrophe r1 of
             None \<Rightarrow> None
           | Some (g2, r2) \<Rightarrow>
               (case digits_then double_quote r2 of
                  None \<Rightarrow> None
                | Some (g3, r3) \<Rightarrow>
                    (case r3 of
                       [] \<Rightarrow> None
                     | h # _ \<Rightarrow> if h \<in> set dirs then Some (g1, g2, g3, h) else None))))"

text \<open>
  \<open>int(s)\<close> on a group of the pattern: a \<open>ValueError\<close> when the group has more digits
  than the limit of the interpreter.
\<close>

definition int_of_digits :: "pylib \<Rightarrow> string \<Rightarrow> pyerror + nat" where
  "int_of_digits lib s =
     (if 0 < int_max_str_digits lib \<and> int_max_str_digits lib < length s then Inl ValueError
      else Inr (py_int s))"

text \<open>
  The range of \<open>float\<close>. The largest float is \<open>2^1024 - 2^971\<close>; a number is rounded to
  it up to half a step above, and from \<open>2^1024 - 2^970\<close> on there is no float for it.
  Converting an \<open>int\<close> of that size, which \<open>int + float\<close> does with its left operand, and
  dividing two \<open>int\<close>s with a quotient of that size, both raise \<open>OverflowError\<close>.
\<close>

definition float_limit :: rat where
  "float_limit = 2 ^ 1024 - 2 ^ 970"

definition int_to_float :: "nat \<Rightarrow> pyerror + rat" where
  "int_to_float n = (if float_limit \<le> of_nat n then Inl OverflowError else Inr (of_nat n))"

definition true_divide :: "nat \<Rightarrow> nat \<Rightarrow> pyerror + rat" where
  "true_divide a b =
     (if float_limit \<le> of_nat a / of_nat b then Inl OverflowError else Inr (of_nat a / of_nat b))"

text \<open>
  \<open>deg + (min / 60) + (sec / 3600)\<close> on three \<open>int\<close>s: the first quotient, the conversion
  of \<open>deg\<close> for the first sum, the second quotient, the second sum. The two sums are sums
  of floats and raise nothing; they are taken exactly (in Python a sum beyond the largest
  float is \<open>inf\<close>).
\<close>

definition dms_value :: "nat \<Rightarrow> nat \<Rightarrow> nat \<Rightarrow> pyerror + rat" where
  "dms_value d m s =
     (case true_divide m 60 of
        Inl e \<Rightarrow> Inl e
      | Inr mf \<Rightarrow>
          (case int_to_float d of
             Inl e \<Rightarrow> Inl e
           | Inr df \<Rightarrow>
               (case true_divide s 3600 of
                  Inl e \<Rightarrow> Inl e
                | Inr sf \<Rightarrow> Inr (df + mf + sf))))"

text \<open>One half of the body of \<open>convert_dms_to_decimal\<close>: a token to its signed value.\<close>

definition dms_part :: "pylib \<Rightarrow> string \<Rightarrow> char \<Rightarrow> string \<Rightarrow> pyerror + rat" where
  "dms_part lib dirs neg part =
     (case match_dms dirs part of
        None \<Rightarrow> Inl ValueError
      | Some (g1, g2, g3, dir) \<Rightarrow>
          (case int_of_digits lib g1 of
             Inl e \<Rightarrow> Inl e
           | Inr deg \<Rightarrow>
               (case int_of_digits lib g2 of
                  Inl e \<Rightarrow> Inl e
                | Inr mins \<Rightarrow>
                    (case int_of_digits lib g3 of
                       Inl e \<Rightarrow> Inl e
                     | Inr sec \<Rightarrow>
                         (case dms_value deg mins sec of
                            Inl e \<Rightarrow> Inl e
                          | Inr v \<Rightarrow> Inr (if dir = neg then - v else v))))))"

text \<open>The \<open>try\<close> block of \<open>convert_dms_to_decimal\<close>, an exception as \<open>Inl\<close>.\<close>

definition convert_dms_body :: "pylib \<Rightarrow> string \<Rightarrow> pyerror + (rat \<times> rat)" where
  "convert_dms_body lib coord_string =
     (case split_ws coord_string of
        [] \<Rightarrow> Inl IndexError
      | lat_part # rest \<Rightarrow>
          (case dms_part lib ''NS'' CHR ''S'' lat_part of
             Inl e \<Rightarrow> Inl e
           | Inr lat_decimal \<Rightarrow>
               (case rest of
                  [] \<Rightarrow> Inl IndexError
                | lon_part # _ \<Rightarrow>
                    (case dms_part lib ''EW'' CHR ''W'' lon_part of
                       Inl e \<Rightarrow> Inl e
                     | Inr lon_decimal \<Rightarrow> Inr (lat_decimal, lon_decimal)))))"

definition convert_dms_to_decimal ::
  "pylib \<Rightarrow> world \<Rightarrow> string \<Rightarrow> (rat \<times> rat) option \<times> world" where
  "convert_dms_to_decimal lib w coord_string =
     (case convert_dms_body lib coord_string of
        Inl e \<Rightarrow> (None, print (Msg_convert_error e) w)
      | Inr p \<Rightarrow> (Some p, w))"

text \<open>The text \<open>D\<degree>M'S"H\<close> of one coordinate.\<close>

definition dms_token :: "string \<Rightarrow> string \<Rightarrow> string \<Rightarrow> char \<Rightarrow> string" where
  "dms_token d m s h = d @ [degree_sign] @ m @ [apostrophe] @ s @ [double_quote] @ [h]"

definition all_digits :: "string \<Rightarrow> bool" where
  "all_digits s = (s \<noteq> [] \<and> list_all isdigit s)"

text \<open>The decimal numeral of a natural number, as \<open>str(n)\<close> writes it.\<close>

definition digit_char :: "nat \<Rightarrow> char" where
  "digit_char d = ''0123456789'' ! d"

function dec :: "nat \<Rightarrow> string" where
  "dec n = (if n < 10 then [digit_char n] else dec (n div 10) @ [digit_char (n mod 10)])"
  by pat_completeness auto
termination
  by (relation "measure (\<lambda>n. n)") auto

declare dec.simps [simp del]

section \<open>The input parser\<close>

definition default_description :: "(rat \<Rightarrow> string) \<Rightarrow> rat \<Rightarrow> rat \<Rightarrow> string" where
  "default_description fmt lat lon = ''Coord_'' @ fmt lat @ ''_'' @ fmt lon"

text \<open>
  The two prompts for the type and the description, with the default description when
  the answer is empty: the same six lines in the DMS branch and in the two-field branch
  of \<open>parse_coordinate_input\<close>.
\<close>

definition ask_type_and_description ::
  "pylib \<Rightarrow> rat \<Rightarrow> rat \<Rightarrow> world \<Rightarrow> (pyerror + (rat \<times> rat \<times> string \<times> string)) \<times> world" where
  "ask_type_and_description lib lat lon w =
     (case py_input Msg_prompt_type w of
        (Inl e, w1) \<Rightarrow> (Inl e, w1)
      | (Inr l1, w1) \<Rightarrow>
          (case py_input Msg_prompt_description w1 of
             (Inl e, w2) \<Rightarrow> (Inl e, w2)
           | (Inr l2, w2) \<Rightarrow>
               (let coord_type = strip l1;
                    description = strip l2;
                    description' = (if description = []
                                    then default_description (format_4f lib) lat lon
                                    else description)
                in (Inr (lat, lon, coord_type, description'), w2))))"

text \<open>The \<open>try\<close> block of \<open>parse_coordinate_input\<close>, an exception as \<open>Inl\<close>.\<close>

definition parse_coordinate_body ::
  "pylib \<Rightarrow> world \<Rightarrow> string \<Rightarrow> (pyerror + (rat \<times> rat \<times> string \<times> string) option) \<times> world" where
  "parse_coordinate_body lib w user_input =
     (if degree_sign \<in> set user_input \<and> apostrophe \<in> set user_input
         \<and> double_quote \<in> set user_input
      then
        (case convert_dms_to_decimal lib (print Msg_dms_detected w) user_input of
           (Some (lat, lon), w1) \<Rightarrow>
             (case ask_type_and_description lib lat lon (print (Msg_converted lat lon) w1) of
                (Inl e, w2) \<Rightarrow> (Inl e, w2)
              | (Inr r, w2) \<Rightarrow> (Inr (Some r), w2))
         | (None, w1) \<Rightarrow> (Inr None, w1))
      else
        (let parts = split_on CHR '','' user_input in
         if length parts \<ge> 3 then
           (case float_of_string lib (strip (parts ! 0)) of
              None \<Rightarrow> (Inl ValueError, w)
            | Some lat \<Rightarrow>
                (case float_of_string lib (strip (parts ! 1)) of
                   None \<Rightarrow> (Inl ValueError, w)
                 | Some lon \<Rightarrow>
                     (let coord_type = strip (parts ! 2);
                          description = (if length parts > 3 then strip (parts ! 3)
                                         else default_description (repr_float lib) lat lon)
                      in (Inr (Some (lat, lon, coord_type, description)), w))))
         else if length parts = 2 then
           (case float_of_string lib (strip (parts ! 0)) of
              None \<Rightarrow> (Inl ValueError, w)
            | Some lat \<Rightarrow>
                (case float_of_string lib (strip (parts ! 1)) of
                   None \<Rightarrow> (Inl ValueError, w)
                 | Some lon \<Rightarrow>
                     (case ask_type_and_description lib lat lon
                             (print (Msg_coords_detected lat lon) w) of
                        (Inl e, w2) \<Rightarrow> (Inl e, w2)
                      | (Inr r, w2) \<Rightarrow> (Inr (Some r), w2))))
         else (Inr None, print Msg_bad_format w)))"

text \<open>The two handlers: \<open>except ValueError\<close>, then \<open>except Exception\<close>.\<close>

definition parse_coordinate_input ::
  "pylib \<Rightarrow> world \<Rightarrow> string \<Rightarrow> (rat \<times> rat \<times> string \<times> string) option \<times> world" where
  "parse_coordinate_input lib w user_input =
     (case parse_coordinate_body lib w user_input of
        (Inl e, w1) \<Rightarrow>
          (None, print (if e = ValueError then Msg_bad_number else Msg_error e) w1)
      | (Inr r, w1) \<Rightarrow> (r, w1))"

section \<open>The coordinate store\<close>

text \<open>Subscripting, item assignment, \<open>append\<close> and \<open>len\<close> on the values of the store.\<close>

fun dict_update :: "string \<Rightarrow> json \<Rightarrow> (string \<times> json) list \<Rightarrow> (string \<times> json) list" where
  "dict_update k v [] = [(k, v)]"
| "dict_update k v ((k', v') # kvs) =
     (if k' = k then (k, v) # kvs else (k', v') # dict_update k v kvs)"

definition getitem :: "json \<Rightarrow> string \<Rightarrow> pyerror + json" where
  "getitem obj k =
     (case obj of
        JDict kvs \<Rightarrow> (case map_of kvs k of None \<Rightarrow> Inl (KeyError k) | Some v \<Rightarrow> Inr v)
      | _ \<Rightarrow> Inl TypeError)"

definition setitem :: "json \<Rightarrow> string \<Rightarrow> json \<Rightarrow> pyerror + json" where
  "setitem obj k v =
     (case obj of
        JDict kvs \<Rightarrow> Inr (JDict (dict_update k v kvs))
      | _ \<Rightarrow> Inl TypeError)"

definition append :: "json \<Rightarrow> json \<Rightarrow> pyerror + json" where
  "append obj x =
     (case obj of
        JList xs \<Rightarrow> Inr (JList (xs @ [x]))
      | _ \<Rightarrow> Inl AttributeError)"

definition len :: "json \<Rightarrow> pyerror + nat" where
  "len obj =
     (case obj of
        JList xs \<Rightarrow> Inr (length xs)
      | JDict kvs \<Rightarrow> Inr (length kvs)
      | JStr s \<Rightarrow> Inr (length s)
      | _ \<Rightarrow> Inl TypeError)"

text \<open>\<open>len(store[key])\<close>.\<close>

definition len_of :: "json \<Rightarrow> string \<Rightarrow> pyerror + nat" where
  "len_of store key = (case getitem store key of Inl e \<Rightarrow> Inl e | Inr v \<Rightarrow> len v)"

text \<open>\<open>store[key].append(x)\<close>: the list inside the store is changed in place.\<close>

definition append_to :: "json \<Rightarrow> string \<Rightarrow> json \<Rightarrow> pyerror + json" where
  "append_to store key x =
     (case getitem store key of
        Inl e \<Rightarrow> Inl e
      | Inr lst \<Rightarrow>
          (case append lst x of
             Inl e \<Rightarrow> Inl e
           | Inr lst' \<Rightarrow> setitem store key lst'))"

text \<open>\<open>store["metadata"][key] = v\<close>: the dictionary inside the store is changed in place.\<close>

definition set_metadata :: "json \<Rightarrow> string \<Rightarrow> json \<Rightarrow> pyerror + json" where
  "set_metadata store key v =
     (case getitem store ''metadata'' of
        Inl e \<Rightarrow> Inl e
      | Inr md \<Rightarrow>
          (case setitem md key v of
             Inl e \<Rightarrow> Inl e
           | Inr md' \<Rightarrow> setitem store ''metadata'' md'))"

record collector =
  coordinates_file :: string
  coordinates :: json

definition initial_coordinates :: json where
  "initial_coordinates =
     JDict [(''pools'', JList []),
            (''no_pools'', JList []),
            (''metadata'', JDict [(''total_pools'', JInt 0),
                                  (''total_no_pools'', JInt 0),
                                  (''last_updated'', JStr [])])]"

text \<open>
  \<open>update_metadata\<close>: three assignments, each of which can raise. The store that is
  returned holds the assignments made before the exception.
\<close>

definition update_metadata :: "string \<Rightarrow> json \<Rightarrow> (pyerror + unit) \<times> json" where
  "update_metadata now store =
     (case len_of store ''pools'' of
        Inl e \<Rightarrow> (Inl e, store)
      | Inr n \<Rightarrow>
          (case set_metadata store ''total_pools'' (JInt (int n)) of
             Inl e \<Rightarrow> (Inl e, store)
           | Inr store1 \<Rightarrow>
               (case len_of store1 ''no_pools'' of
                  Inl e \<Rightarrow> (Inl e, store1)
                | Inr m \<Rightarrow>
                    (case set_metadata store1 ''total_no_pools'' (JInt (int m)) of
                       Inl e \<Rightarrow> (Inl e, store1)
                     | Inr store2 \<Rightarrow>
                         (case set_metadata store2 ''last_updated'' (JStr now) of
                            Inl e \<Rightarrow> (Inl e, store2)
                          | Inr store3 \<Rightarrow> (Inr (), store3))))))"

definition coord_data :: "rat \<Rightarrow> rat \<Rightarrow> string \<Rightarrow> json" where
  "coord_data lat lon description =
     JDict [(''lat'', JFloat lat), (''lon'', JFloat lon),
            (''description'', JStr description), (''captured'', JBool False)]"

text \<open>
  \<open>add_coordinate\<close>: an exception leaves the function with the store as it is at that
  moment; the result \<open>Inr b\<close> is the returned boolean.
\<close>

definition add_coordinate ::
  "world \<Rightarrow> collector \<Rightarrow> rat \<Rightarrow> rat \<Rightarrow> string \<Rightarrow> string \<Rightarrow> (pyerror + bool) \<times> collector \<times> world" where
  "add_coordinate w c lat lon coord_type description =
     (if lower coord_type \<in> set [''pool'', ''piscina'', ''p''] then
        (case append_to (coordinates c) ''pools'' (coord_data lat lon description) of
           Inl e \<Rightarrow> (Inl e, c, w)
         | Inr store1 \<Rightarrow>
             (let w1 = print (Msg_pool_added description lat lon) w in
              case update_metadata (clock w1) store1 of
                (Inl e, store2) \<Rightarrow> (Inl e, c\<lparr>coordinates := store2\<rparr>, w1)
              | (Inr _, store2) \<Rightarrow> (Inr True, c\<lparr>coordinates := store2\<rparr>, w1)))
      else if lower coord_type \<in> set [''no_pool'', ''no_piscina'', ''n''] then
        (case append_to (coordinates c) ''no_pools'' (coord_data lat lon description) of
           Inl e \<Rightarrow> (Inl e, c, w)
         | Inr store1 \<Rightarrow>
             (let w1 = print (Msg_no_pool_added description lat lon) w in
              case update_metadata (clock w1) store1 of
                (Inl e, store2) \<Rightarrow> (Inl e, c\<lparr>coordinates := store2\<rparr>, w1)
              | (Inr _, store2) \<Rightarrow> (Inr True, c\<lparr>coordinates := store2\<rparr>, w1)))
      else (Inr False, c, print Msg_invalid_type w))"

text \<open>
  \<open>load_existing\<close>: the parsed value is assigned before the message with the two
  lengths is built, so an exception raised there is caught with the store replaced.
\<close>

definition load_existing :: "pylib \<Rightarrow> world \<Rightarrow> collector \<Rightarrow> collector \<times> world" where
  "load_existing lib w c =
     (case files w (coordinates_file c) of
        None \<Rightarrow> (c, w)
      | Some text \<Rightarrow>
          (if read_denied w (coordinates_file c) then (c, print (Msg_load_error OSError) w)
           else
             (case json_loads lib text of
                None \<Rightarrow> (c, print (Msg_load_error ValueError) w)
              | Some j \<Rightarrow>
                  (let c1 = c\<lparr>coordinates := j\<rparr> in
                   case len_of j ''pools'' of
                     Inl e \<Rightarrow> (c1, print (Msg_load_error e) w)
                   | Inr n \<Rightarrow>
                       (case len_of j ''no_pools'' of
                          Inl e \<Rightarrow> (c1, print (Msg_load_error e) w)
                        | Inr m \<Rightarrow> (c1, print (Msg_loaded n m) w))))))"

text \<open>The constructor \<open>CoordinateCollector()\<close>.\<close>

definition new_collector :: "pylib \<Rightarrow> world \<Rightarrow> collector \<times> world" where
  "new_collector lib w =
     load_existing lib w
       \<lparr>coordinates_file = ''scripts_automatizadores/coordinates.json'',
        coordinates = initial_coordinates\<rparr>"

text \<open>
  \<open>save_coordinates\<close>: the file is written first; the three messages follow, and an
  exception while they are built is reported as a save error.
\<close>

definition save_coordinates :: "pylib \<Rightarrow> world \<Rightarrow> collector \<Rightarrow> collector \<times> world" where
  "save_coordinates lib w c =
     (if write_denied w (coordinates_file c) then (c, print (Msg_save_error OSError) w)
      else
        (let w1 = w\<lparr>files := (files w)(coordinates_file c \<mapsto> json_dumps lib (coordinates c))\<rparr>;
             w2 = print (Msg_saved (coordinates_file c)) w1
         in case len_of (coordinates c) ''pools'' of
              Inl e \<Rightarrow> (c, print (Msg_save_error e) w2)
            | Inr n \<Rightarrow>
                (let w3 = print (Msg_total_pools n) w2 in
                 case len_of (coordinates c) ''no_pools'' of
                   Inl e \<Rightarrow> (c, print (Msg_save_error e) w3)
                 | Inr m \<Rightarrow> (c, print (Msg_total_no_pools m) w3))))"

text \<open>
  One entry of \<open>interactive_collector\<close> that is not a command: parse it and, when the
  parser returned a tuple, add it.
\<close>

definition process_entry ::
  "pylib \<Rightarrow> world \<Rightarrow> collector \<Rightarrow> string \<Rightarrow> (pyerror + unit) \<times> collector \<times> world" where
  "process_entry lib w c user_input =
     (case parse_coordinate_input lib w user_input of
        (None, w1) \<Rightarrow> (Inr (), c, w1)
      | (Some (lat, lon, coord_type, description), w1) \<Rightarrow>
          (case add_coordinate w1 c lat lon coord_type description of
             (Inl e, c1, w2) \<Rightarrow> (Inl e, c1, w2)
           | (Inr b, c1, w2) \<Rightarrow> (Inr (), c1, w2)))"

section \<open>An instance of the library\<close>

text \<open>
  A concrete library, used where a property is evaluated on a given input. It follows
  Python on the texts it accepts, with floats as exact rationals: \<open>float_plain\<close> reads
  the plain decimal literals (optional sign, digits, optional point and digits; it
  refuses exponents, \<open>inf\<close>, \<open>nan\<close> and underscores, which Python accepts); \<open>repr_plain\<close>
  writes the decimal expansion, cut after 17 fractional digits; \<open>format_4f_plain\<close>
  rounds to four decimals, a tie to the even digit; \<open>dump\<close> writes JSON as \<open>json.dump\<close>
  does with \<open>indent=2\<close> and \<open>ensure_ascii=False\<close>; \<open>loads\<close> reads JSON without exponents,
  without \<open>NaN\<close> and \<open>Infinity\<close>, and with \<open>\u\<close> escapes below 256 only. The recursion of
  the reader is bounded by the length of the text.
\<close>

definition float_plain :: "string \<Rightarrow> rat option" where
  "float_plain s =
     (let s1 = strip s;
          neg = (case s1 of [] \<Rightarrow> False | c # _ \<Rightarrow> c = CHR ''-'');
          s2 = (case s1 of [] \<Rightarrow> [] | c # r \<Rightarrow> if c = CHR ''-'' \<or> c = CHR ''+'' then r else s1);
          ip = takeWhile isdigit s2;
          v = (case dropWhile isdigit s2 of
                 [] \<Rightarrow> if ip = [] then None else Some (of_nat (py_int ip))
               | c # fp \<Rightarrow>
                   if c = CHR ''.'' \<and> list_all isdigit fp \<and> (ip \<noteq> [] \<or> fp \<noteq> [])
                   then Some (of_nat (py_int ip) + of_nat (py_int fp) / 10 ^ length fp)
                   else None)
      in case v of None \<Rightarrow> None | Some x \<Rightarrow> Some (if neg then - x else x))"

text \<open>The digits of \<open>x\<close> after the point, for \<open>0 \<le> x < 1\<close>.\<close>

fun frac_digits :: "nat \<Rightarrow> rat \<Rightarrow> string" where
  "frac_digits 0 x = []"
| "frac_digits (Suc fuel) x =
     (if x = 0 then []
      else (let d = nat \<lfloor>10 * x\<rfloor> in digit_char d # frac_digits fuel (10 * x - of_nat d)))"

definition repr_plain :: "rat \<Rightarrow> string" where
  "repr_plain r =
     (let a = \<bar>r\<bar>;
          ip = nat \<lfloor>a\<rfloor>;
          fp = frac_digits 17 (a - of_nat ip)
      in (if r < 0 then ''-'' else []) @ dec ip @ ''.'' @ (if fp = [] then ''0'' else fp))"

definition round_half_even :: "rat \<Rightarrow> nat" where
  "round_half_even x =
     (let f = nat \<lfloor>x\<rfloor>; d = x - of_nat f in
      if d < 1 / 2 then f else if 1 / 2 < d then f + 1 else if even f then f else f + 1)"

definition format_4f_plain :: "rat \<Rightarrow> string" where
  "format_4f_plain r =
     (let n = round_half_even (\<bar>r\<bar> * 10000);
          fp = dec (n mod 10000)
      in (if r < 0 then ''-'' else []) @ dec (n div 10000) @ ''.''
         @ replicate (4 - length fp) CHR ''0'' @ fp)"


text \<open>The JSON writer.\<close>

definition dump_int :: "int \<Rightarrow> string" where
  "dump_int i = (if i < 0 then ''-'' @ dec (nat (- i)) else dec (nat i))"

definition hex_digit :: "nat \<Rightarrow> char" where
  "hex_digit n = ''0123456789abcdef'' ! n"

definition backslash :: char where
  "backslash = CHR 0x5C"

definition escape_char :: "char \<Rightarrow> string" where
  "escape_char c =
     (if c = double_quote then [backslash, double_quote]
      else if c = backslash then [backslash, backslash]
      else if c = CHR 0x0A then [backslash, CHR ''n'']
      else if c = CHR 0x0D then [backslash, CHR ''r'']
      else if c = CHR 0x09 then [backslash, CHR ''t'']
      else if c = CHR 0x08 then [backslash, CHR ''b'']
      else if c = CHR 0x0C then [backslash, CHR ''f'']
      else if (of_char c :: nat) < 32
      then [backslash, CHR ''u'', CHR ''0'', CHR ''0'',
            hex_digit (of_char c div 16), hex_digit (of_char c mod 16)]
      else [c])"

definition dump_string :: "string \<Rightarrow> string" where
  "dump_string s = double_quote # concat (map escape_char s) @ [double_quote]"

definition newline_indent :: "nat \<Rightarrow> string" where
  "newline_indent l = CHR 0x0A # replicate (2 * l) CHR '' ''"

fun dump :: "nat \<Rightarrow> json \<Rightarrow> string"
  and dump_items :: "nat \<Rightarrow> json list \<Rightarrow> string"
  and dump_members :: "nat \<Rightarrow> (string \<times> json) list \<Rightarrow> string" where
  "dump l JNull = ''null''"
| "dump l (JBool b) = (if b then ''true'' else ''false'')"
| "dump l (JInt i) = dump_int i"
| "dump l (JFloat r) = repr_plain r"
| "dump l (JStr s) = dump_string s"
| "dump l (JList xs) =
     (if xs = [] then ''[]''
      else ''['' @ newline_indent (Suc l) @ dump_items (Suc l) xs @ newline_indent l @ '']'')"
| "dump l (JDict kvs) =
     (if kvs = [] then ''{}''
      else ''{'' @ newline_indent (Suc l) @ dump_members (Suc l) kvs @ newline_indent l @ ''}'')"
| "dump_items l [] = []"
| "dump_items l [x] = dump l x"
| "dump_items l (x # y # ys) = dump l x @ '','' @ newline_indent l @ dump_items l (y # ys)"
| "dump_members l [] = []"
| "dump_members l [(k, v)] = dump_string k @ '': '' @ dump l v"
| "dump_members l ((k, v) # m # ms) =
     dump_string k @ '': '' @ dump l v @ '','' @ newline_indent l @ dump_members l (m # ms)"

text \<open>The JSON reader.\<close>

definition json_space :: "char \<Rightarrow> bool" where
  "json_space c = (of_char c \<in> {32, 10, 13, 9 :: nat})"

definition skip_ws :: "string \<Rightarrow> string" where
  "skip_ws s = dropWhile json_space s"

definition hex_val :: "char \<Rightarrow> nat option" where
  "hex_val c =
     (let n = (of_char c :: nat) in
      if 48 \<le> n \<and> n \<le> 57 then Some (n - 48)
      else if 97 \<le> n \<and> n \<le> 102 then Some (n - 87)
      else if 65 \<le> n \<and> n \<le> 70 then Some (n - 55)
      else None)"

definition unescape :: "char \<Rightarrow> char option" where
  "unescape e =
     (if e = double_quote \<or> e = backslash \<or> e = CHR ''/'' then Some e
      else if e = CHR ''n'' then Some (CHR 0x0A)
      else if e = CHR ''r'' then Some (CHR 0x0D)
      else if e = CHR ''t'' then Some (CHR 0x09)
      else if e = CHR ''b'' then Some (CHR 0x08)
      else if e = CHR ''f'' then Some (CHR 0x0C)
      else None)"

fun parse_string :: "string \<Rightarrow> string \<Rightarrow> (string \<times> string) option" where
  "parse_string acc [] = None"
| "parse_string acc [c] = (if c = double_quote then Some (acc, []) else None)"
| "parse_string acc (c # e # r) =
     (if c = double_quote then Some (acc, e # r)
      else if c = backslash then
        (if e = CHR ''u'' then
           (case r of
              a # b # x # y # r' \<Rightarrow>
                (case (hex_val a, hex_val b, hex_val x, hex_val y) of
                   (Some 0, Some 0, Some h, Some l) \<Rightarrow> parse_string (acc @ [char_of (16 * h + l)]) r'
                 | _ \<Rightarrow> None)
            | _ \<Rightarrow> None)
         else (case unescape e of None \<Rightarrow> None | Some u \<Rightarrow> parse_string (acc @ [u]) r))
      else if (of_char c :: nat) < 32 then None
      else parse_string (acc @ [c]) (e # r))"

definition signed :: "bool \<Rightarrow> 'a::uminus \<Rightarrow> 'a" where
  "signed neg x = (if neg then - x else x)"

definition parse_fraction :: "bool \<Rightarrow> string \<Rightarrow> string \<Rightarrow> string \<Rightarrow> (json \<times> string) option" where
  "parse_fraction neg ip fp r =
     (if fp = [] then None
      else Some (JFloat (signed neg (of_nat (py_int ip) + of_nat (py_int fp) / 10 ^ length fp)), r))"

definition parse_integer :: "bool \<Rightarrow> string \<Rightarrow> string \<Rightarrow> (json \<times> string) option" where
  "parse_integer neg ip r =
     (if ip = [] \<or> (1 < length ip \<and> hd ip = CHR ''0'') then None
      else (case r of
              [] \<Rightarrow> Some (JInt (signed neg (int (py_int ip))), [])
            | c # r1 \<Rightarrow>
                if c = CHR ''.''
                then parse_fraction neg ip (takeWhile isdigit r1) (dropWhile isdigit r1)
                else Some (JInt (signed neg (int (py_int ip))), r)))"

definition parse_number :: "string \<Rightarrow> (json \<times> string) option" where
  "parse_number s =
     (case s of
        [] \<Rightarrow> None
      | c # s1 \<Rightarrow>
          if c = CHR ''-''
          then parse_integer True (takeWhile isdigit s1) (dropWhile isdigit s1)
          else parse_integer False (takeWhile isdigit s) (dropWhile isdigit s))"

fun parse_value :: "nat \<Rightarrow> string \<Rightarrow> (json \<times> string) option"
  and parse_items :: "nat \<Rightarrow> json list \<Rightarrow> string \<Rightarrow> (json list \<times> string) option"
  and parse_members ::
    "nat \<Rightarrow> (string \<times> json) list \<Rightarrow> string \<Rightarrow> ((string \<times> json) list \<times> string) option" where
  "parse_value 0 s = None"
| "parse_value (Suc n) s =
     (case s of
        [] \<Rightarrow> None
      | c # cs \<Rightarrow>
          if c = CHR ''{'' then
            (case skip_ws cs of
               [] \<Rightarrow> None
             | c1 # r \<Rightarrow>
                 if c1 = CHR ''}'' then Some (JDict [], r)
                 else (case parse_members n [] (c1 # r) of
                         None \<Rightarrow> None
                       | Some (kvs, r') \<Rightarrow> Some (JDict kvs, r')))
          else if c = CHR ''['' then
            (case skip_ws cs of
               [] \<Rightarrow> None
             | c1 # r \<Rightarrow>
                 if c1 = CHR '']'' then Some (JList [], r)
                 else (case parse_items n [] (c1 # r) of
                         None \<Rightarrow> None
                       | Some (xs, r') \<Rightarrow> Some (JList xs, r')))
          else if c = double_quote then
            (case parse_string [] cs of
               None \<Rightarrow> None
             | Some (str, r) \<Rightarrow> Some (JStr str, r))
          else if take 4 s = ''null'' then Some (JNull, drop 4 s)
          else if take 4 s = ''true'' then Some (JBool True, drop 4 s)
          else if take 5 s = ''false'' then Some (JBool False, drop 5 s)
          else parse_number s)"
| "parse_items 0 acc s = None"
| "parse_items (Suc n) acc s =
     (case parse_value n s of
        None \<Rightarrow> None
      | Some (v, r) \<Rightarrow>
          (case skip_ws r of
             [] \<Rightarrow> None
           | c # r1 \<Rightarrow>
               if c = CHR '','' then parse_items n (acc @ [v]) (skip_ws r1)
               else if c = CHR '']'' then Some (acc @ [v], r1)
               else None))"
| "parse_members 0 acc s = None"
| "parse_members (Suc n) acc s =
     (case s of
        [] \<Rightarrow> None
      | c # cs \<Rightarrow>
          if c = double_quote then
            (case parse_string [] cs of
               None \<Rightarrow> None
             | Some (k, r) \<Rightarrow>
                 (case skip_ws r of
                    [] \<Rightarrow> None
                  | c1 # r1 \<Rightarrow>
                      if c1 = CHR '':'' then
                        (case parse_value n (skip_ws r1) of
                           None \<Rightarrow> None
                         | Some (v, r2) \<Rightarrow>
                             (case skip_ws r2 of
                                [] \<Rightarrow> None
                              | c2 # r3 \<Rightarrow>
                                  if c2 = CHR '','' then
                                    parse_members n (dict_update k v acc) (skip_ws r3)
                                  else if c2 = CHR ''}'' then Some (dict_update k v acc, r3)
                                  else None))
                      else None))
          else None)"

definition loads :: "string \<Rightarrow> json option" where
  "loads s =
     (case parse_value (Suc (length s)) (skip_ws s) of
        None \<Rightarrow> None
      | Some (v, r) \<Rightarrow> if skip_ws r = [] then Some v else None)"

definition plain_lib :: pylib where
  "plain_lib = \<lparr>float_of_string = float_plain, repr_float = repr_plain,
                 format_4f = format_4f_plain, json_dumps = dump 0, json_loads = loads,
                 int_max_str_digits = 4300\<rparr>"

text \<open>\<open>sep.join(parts)\<close> for a one-character separator.\<close>

fun join_sep :: "char \<Rightarrow> string list \<Rightarrow> string" where
  "join_sep sep [] = []"
| "join_sep sep [p] = p"
| "join_sep sep (p # q # ps) = p @ sep # join_sep sep (q # ps)"

section \<open>Fixtures and specification predicates\<close>

text \<open>A quiet world: no file, nothing typed, nothing printed yet.\<close>

definition world0 :: world where
  "world0 = \<lparr>files = (\<lambda>_. None), read_denied = (\<lambda>_. False), write_denied = (\<lambda>_. False),
             stdin = [], stdout = [], clock = ''2024-01-01 00:00:00''\<rparr>"

text \<open>
  A token is exactly of the form \<open>D\<degree>M'S"H\<close> when the pattern matches it and the four groups
  with their separators are the whole token.
\<close>

definition exact_dms :: "string \<Rightarrow> string \<Rightarrow> bool" where
  "exact_dms dirs t =
     (case match_dms dirs t of
        None \<Rightarrow> False
      | Some (g1, g2, g3, h) \<Rightarrow> t = dms_token g1 g2 g3 h)"

text \<open>A collector that holds the initial store.\<close>

definition collector0 :: collector where
  "collector0 = \<lparr>coordinates_file = ''scripts_automatizadores/coordinates.json'',
                  coordinates = initial_coordinates\<rparr>"







text \<open>The initial store after two pools and one area without pool were added.\<close>

definition store_2_1 :: json where
  "store_2_1 =
     JDict [(''pools'', JList [coord_data (191738 / 10000) (- (961342 / 10000)) ''Casa1'',
                               coord_data (1918 / 100) (- (9612 / 100)) ''Casa2'']),
            (''no_pools'', JList [coord_data (192 / 10) (- (961 / 10)) ''Lote'']),
            (''metadata'', JDict [(''total_pools'', JInt 2),
                                  (''total_no_pools'', JInt 1),
                                  (''last_updated'', JStr ''2024-01-01 00:00:00'')])]"


section \<open>Properties of the string operations and of the DMS parser\<close>

lemma py_int_snoc: "py_int (s @ [c]) = 10 * py_int s + digit_val c"
  by (simp add: py_int_def)

lemma all_digits_snoc: "all_digits s \<Longrightarrow> isdigit c \<Longrightarrow> all_digits (s @ [c])"
  by (simp add: all_digits_def)

lemma digit_char_ok: "k < 10 \<Longrightarrow> isdigit (digit_char k) \<and> digit_val (digit_char k) = k"
proof -
  assume "k < 10"
  then have "k \<in> {0, 1, 2, 3, 4, 5, 6, 7, 8, 9}" by auto
  then show ?thesis
    by (auto simp: digit_char_def isdigit_def digit_val_def)
qed

lemma dec_ok: "py_int (dec n) = n \<and> all_digits (dec n)"
proof (induction n rule: dec.induct)
  case (1 n)
  show ?case
  proof (cases "n < 10")
    case True
    then show ?thesis
      using digit_char_ok [of n] by (simp add: dec.simps [of n] py_int_def all_digits_def)
  next
    case False
    with 1 have ih: "py_int (dec (n div 10)) = n div 10" "all_digits (dec (n div 10))"
      by simp_all
    have d: "isdigit (digit_char (n mod 10))" "digit_val (digit_char (n mod 10)) = n mod 10"
      using digit_char_ok [of "n mod 10"] by simp_all
    show ?thesis using False ih d
      by (simp add: dec.simps [of n] py_int_snoc all_digits_snoc)
  qed
qed

lemma py_int_dec: "py_int (dec n) = n"
  using dec_ok [of n] by simp

lemma all_digits_dec: "all_digits (dec n)"
  using dec_ok [of n] by simp

text \<open>Rules for evaluating the library instance on numerals.\<close>

lemma floor_rat_numeral: "\<lfloor>numeral a / numeral b :: rat\<rfloor> = numeral a div numeral b"
  by (metis floor_divide_of_int_eq of_int_numeral)

lemma frac_digits_numeral:
  "frac_digits (numeral k) x =
     (if x = 0 then []
      else (let d = nat \<lfloor>10 * x\<rfloor>
            in digit_char d # frac_digits (pred_numeral k) (10 * x - of_nat d)))"
  by (simp add: numeral_eq_Suc)

lemmas float_eval = float_plain_def strip_def isspace_def isdigit_def py_int_def digit_val_def

lemmas format_eval = repr_plain_def format_4f_plain_def round_half_even_def Let_def
  floor_rat_numeral frac_digits_numeral dec.simps digit_char_def default_description_def

lemma parse_fuel_numeral:
  "parse_value (numeral k) s = parse_value (Suc (pred_numeral k)) s"
  "parse_items (numeral k) xs s = parse_items (Suc (pred_numeral k)) xs s"
  "parse_members (numeral k) kvs s = parse_members (Suc (pred_numeral k)) kvs s"
  by (simp_all only: numeral_eq_Suc)

lemma replicate_numeral_eval: "replicate (numeral k) x = x # replicate (pred_numeral k) x"
  by (simp add: numeral_eq_Suc)

lemmas json_eval = parse_fuel_numeral loads_def skip_ws_def json_space_def double_quote_def backslash_def
  unescape_def parse_number_def parse_integer_def parse_fraction_def signed_def
  isdigit_def py_int_def digit_val_def hex_val_def

lemmas dump_eval = replicate_numeral_eval dump_string_def escape_char_def newline_indent_def dump_int_def
  double_quote_def backslash_def hex_digit_def

lemma split_acc_nospace:
  "list_all (\<lambda>c. \<not> isspace c) t \<Longrightarrow> split_acc cur (t @ rest) = split_acc (cur @ t) rest"
  by (induction t arbitrary: cur) auto

lemma split_ws_two:
  assumes "list_all (\<lambda>c. \<not> isspace c) t1" "list_all (\<lambda>c. \<not> isspace c) t2" "t1 \<noteq> []" "t2 \<noteq> []"
  shows "split_ws (t1 @ '' '' @ t2) = [t1, t2]"
proof -
  have "split_acc [] (t1 @ '' '' @ t2) = split_acc t1 ('' '' @ t2)"
    using split_acc_nospace [OF assms(1), of "[]"] by simp
  also have "\<dots> = t1 # split_acc [] (t2 @ [])"
    using assms(3) by (simp add: isspace_def)
  also have "split_acc [] (t2 @ []) = split_acc t2 []"
    using split_acc_nospace [OF assms(2), of "[]" "[]"] by simp
  finally show ?thesis using assms(4) by (simp add: split_ws_def)
qed

lemma digits_then_ok:
  "all_digits ds \<Longrightarrow> \<not> isdigit lit \<Longrightarrow> digits_then lit (ds @ lit # r) = Some (ds, r)"
  unfolding all_digits_def digits_then_def
  by (simp add: list_all_iff takeWhile_tail dropWhile_append3 Let_def)

lemma digits_then_Some:
  assumes "digits_then lit s = Some (ds, r)"
  shows "s = ds @ lit # r \<and> all_digits ds"
proof -
  from assms have ne: "takeWhile isdigit s \<noteq> []" and ds: "ds = takeWhile isdigit s"
    and dr: "dropWhile isdigit s = lit # r"
    by (auto simp: digits_then_def Let_def split: if_splits list.splits)
  have "s = takeWhile isdigit s @ dropWhile isdigit s" by simp
  with ds dr have "s = ds @ lit # r" by simp
  moreover have "list_all isdigit ds" unfolding ds list_all_iff by (auto dest: set_takeWhileD)
  ultimately show ?thesis using ne ds by (simp add: all_digits_def)
qed

lemma match_dms_token:
  assumes "all_digits d" "all_digits m" "all_digits s" "h \<in> set dirs"
  shows "match_dms dirs (dms_token d m s h @ r) = Some (d, m, s, h)"
  using assms
  by (simp add: match_dms_def dms_token_def digits_then_ok degree_sign_def apostrophe_def double_quote_def isdigit_def)

lemma match_dms_Some:
  assumes "match_dms dirs t = Some (d, m, s, h)"
  shows "\<exists>r. t = dms_token d m s h @ r \<and> all_digits d \<and> all_digits m \<and> all_digits s \<and> h \<in> set dirs"
proof -
  from assms obtain r1 r2 r3 where
    1: "digits_then degree_sign t = Some (d, r1)" and
    2: "digits_then apostrophe r1 = Some (m, r2)" and
    3: "digits_then double_quote r2 = Some (s, r3)" and
    4: "r3 \<noteq> []" "hd r3 = h" "h \<in> set dirs"
    by (auto simp: match_dms_def split: option.splits list.splits if_splits)
  from 4 obtain r where r3: "r3 = h # r" by (cases r3) auto
  from digits_then_Some [OF 1] digits_then_Some [OF 2] digits_then_Some [OF 3] r3 4(3)
  show ?thesis by (auto simp: dms_token_def)
qed

lemma exact_dms_iff:
  "exact_dms dirs t \<longleftrightarrow>
     (\<exists>d m s h. all_digits d \<and> all_digits m \<and> all_digits s \<and> h \<in> set dirs \<and> t = dms_token d m s h)"
proof
  assume "exact_dms dirs t"
  then obtain d m s h where ms: "match_dms dirs t = Some (d, m, s, h)" and t: "t = dms_token d m s h"
    by (auto simp: exact_dms_def split: option.splits)
  from match_dms_Some [OF ms] t show "\<exists>d m s h. all_digits d \<and> all_digits m \<and> all_digits s \<and> h \<in> set dirs \<and> t = dms_token d m s h"
    by blast
next
  assume "\<exists>d m s h. all_digits d \<and> all_digits m \<and> all_digits s \<and> h \<in> set dirs \<and> t = dms_token d m s h"
  then obtain d m s h where *: "all_digits d" "all_digits m" "all_digits s" "h \<in> set dirs" "t = dms_token d m s h"
    by blast
  with match_dms_token [of d m s h dirs "[]"] show "exact_dms dirs t"
    by (simp add: exact_dms_def)
qed

lemma match_dms_prefix_iff:
  "match_dms dirs t \<noteq> None \<longleftrightarrow> (\<exists>p r. t = p @ r \<and> exact_dms dirs p)"
proof
  assume "match_dms dirs t \<noteq> None"
  then obtain d m s h where "match_dms dirs t = Some (d, m, s, h)" by auto
  from match_dms_Some [OF this] show "\<exists>p r. t = p @ r \<and> exact_dms dirs p"
    unfolding exact_dms_iff by blast
next
  assume "\<exists>p r. t = p @ r \<and> exact_dms dirs p"
  then show "match_dms dirs t \<noteq> None"
    unfolding exact_dms_iff using match_dms_token by fastforce
qed

lemma dms_token_nospace:
  assumes "all_digits d" "all_digits m" "all_digits s" "\<not> isspace h"
  shows "list_all (\<lambda>c. \<not> isspace c) (dms_token d m s h)"
proof -
  have "\<And>x. all_digits x \<Longrightarrow> list_all (\<lambda>c. \<not> isspace c) x"
    by (auto simp: all_digits_def list_all_iff isdigit_def isspace_def)
  with assms show ?thesis
    by (simp add: dms_token_def degree_sign_def apostrophe_def double_quote_def isspace_def)
qed

lemma int_of_digits_ok:
  "int_max_str_digits lib = 0 \<or> length g \<le> int_max_str_digits lib \<Longrightarrow>
     int_of_digits lib g = Inr (py_int g)"
  by (auto simp: int_of_digits_def)

lemma dms_value_in_range:
  assumes "of_nat d + of_nat m / 60 + of_nat s / 3600 < float_limit"
  shows "dms_value d m s = Inr (of_nat d + of_nat m / 60 + of_nat s / 3600)"
proof -
  have nn: "(0::rat) \<le> of_nat d" "(0::rat) \<le> of_nat m / 60" "(0::rat) \<le> of_nat s / 3600"
    by simp_all
  from assms nn have "(of_nat d :: rat) < float_limit" "(of_nat m / 60 :: rat) < float_limit"
    "(of_nat s / 3600 :: rat) < float_limit"
    by linarith+
  then show ?thesis
    by (simp add: dms_value_def true_divide_def int_to_float_def)
qed

lemma dms_value_overflow:
  assumes "float_limit \<le> of_nat d"
  shows "dms_value d m s = Inl OverflowError"
  using assms by (simp add: dms_value_def true_divide_def int_to_float_def)

lemma dms_part_token:
  assumes "all_digits d" "all_digits m" "all_digits s" "h \<in> set dirs"
      and "int_max_str_digits lib = 0
           \<or> (length d \<le> int_max_str_digits lib \<and> length m \<le> int_max_str_digits lib
              \<and> length s \<le> int_max_str_digits lib)"
  shows "dms_part lib dirs neg (dms_token d m s h @ r) =
           (case dms_value (py_int d) (py_int m) (py_int s) of
              Inl e \<Rightarrow> Inl e
            | Inr v \<Rightarrow> Inr (if h = neg then - v else v))"
proof -
  from assms(5) have "int_of_digits lib d = Inr (py_int d)" "int_of_digits lib m = Inr (py_int m)"
    "int_of_digits lib s = Inr (py_int s)"
    by (auto intro: int_of_digits_ok)
  with match_dms_token [OF assms(1-4), of r] show ?thesis
    by (simp add: dms_part_def)
qed

lemma dms_part_Inr:
  assumes "dms_part lib dirs neg t = Inr v"
  shows "\<exists>p r. t = p @ r \<and> exact_dms dirs p"
proof -
  from assms have "match_dms dirs t \<noteq> None"
    by (cases "match_dms dirs t") (simp_all add: dms_part_def)
  then show ?thesis unfolding match_dms_prefix_iff .
qed

lemma py_int_nines: "py_int (replicate n CHR ''9'') = 10 ^ n - 1"
proof (induction n)
  case 0
  show ?case by (simp add: py_int_def)
next
  case (Suc n)
  have "replicate (Suc n) CHR ''9'' = replicate n CHR ''9'' @ [CHR ''9'']"
    by (simp add: replicate_append_same)
  then have "py_int (replicate (Suc n) CHR ''9'') = 10 * py_int (replicate n CHR ''9'') + 9"
    by (simp only: py_int_snoc) (simp add: digit_val_def)
  then have 1: "py_int (replicate (Suc n) CHR ''9'') = 10 * (10 ^ n - 1) + 9"
    by (simp only: Suc)
  obtain k :: nat where k: "10 ^ n = Suc k"
    by (cases "10 ^ n :: nat") auto
  show ?case unfolding 1 power_Suc k by simp
qed

lemma all_digits_nines: "0 < n \<Longrightarrow> all_digits (replicate n CHR ''9'')"
  by (simp add: all_digits_def list_all_iff isdigit_def)

text \<open>
  Claim C1, as stated, fails for a group of digits beyond the range of \<open>float\<close>: with 310
  nines for the degrees of the latitude, \<open>int\<close> reads the group, the conversion of the
  number to \<open>float\<close> raises \<open>OverflowError\<close>, and the parser reports it and returns \<open>None\<close>.
\<close>

theorem convert_dms_overflow_counterexample:
  "all_digits (replicate 310 CHR ''9'')
   \<and> length (replicate 310 CHR ''9'') < int_max_str_digits plain_lib
   \<and> convert_dms_to_decimal plain_lib world0
       (dms_token (replicate 310 CHR ''9'') ''11'' ''19'' CHR ''N'' @ '' ''
        @ dms_token ''96'' ''07'' ''32'' CHR ''W'')
     = (None, print (Msg_convert_error OverflowError) world0)"
proof -
  let ?d = "replicate 310 CHR ''9''"
  have a: "all_digits ?d"
    by (rule all_digits_nines) simp
  have b: "all_digits ''11''" "all_digits ''19''" "all_digits ''96''" "all_digits ''07''"
    "all_digits ''32''"
    by (simp_all add: all_digits_def isdigit_def)
  have l: "length ?d < int_max_str_digits plain_lib"
    by (simp add: plain_lib_def)
  have sp: "split_ws (dms_token ?d ''11'' ''19'' CHR ''N'' @ '' '' @ dms_token ''96'' ''07'' ''32'' CHR ''W'')
              = [dms_token ?d ''11'' ''19'' CHR ''N'', dms_token ''96'' ''07'' ''32'' CHR ''W'']"
  proof (rule split_ws_two)
    show "list_all (\<lambda>c. \<not> isspace c) (dms_token ?d ''11'' ''19'' CHR ''N'')"
      by (rule dms_token_nospace [OF a b(1,2)]) (simp add: isspace_def)
    show "list_all (\<lambda>c. \<not> isspace c) (dms_token ''96'' ''07'' ''32'' CHR ''W'')"
      by (rule dms_token_nospace [OF b(3,4,5)]) (simp add: isspace_def)
    show "dms_token ?d ''11'' ''19'' CHR ''N'' \<noteq> []" "dms_token ''96'' ''07'' ''32'' CHR ''W'' \<noteq> []"
      by (simp_all add: dms_token_def)
  qed
  have big: "float_limit \<le> of_nat (py_int ?d)"
    unfolding py_int_nines float_limit_def by (simp add: of_nat_diff)
  have "dms_part plain_lib ''NS'' CHR ''S'' (dms_token ?d ''11'' ''19'' CHR ''N'' @ [])
          = Inl OverflowError"
  proof -
    have "int_max_str_digits plain_lib = 0
           \<or> (length ?d \<le> int_max_str_digits plain_lib
              \<and> length ''11'' \<le> int_max_str_digits plain_lib
              \<and> length ''19'' \<le> int_max_str_digits plain_lib)"
      by (simp add: plain_lib_def)
    from dms_part_token [OF a b(1,2) _ this, of "CHR ''N''" "''NS''" "CHR ''S''" "[]"]
    show ?thesis
      by (simp add: dms_value_overflow [OF big])
  qed
  then have "convert_dms_body plain_lib
       (dms_token ?d ''11'' ''19'' CHR ''N'' @ '' '' @ dms_token ''96'' ''07'' ''32'' CHR ''W'')
     = Inl OverflowError"
    unfolding convert_dms_body_def sp by simp
  with a l show ?thesis
    by (simp add: convert_dms_to_decimal_def)
qed

text \<open>
  Claim C1, amended. For digit strings \<open>d1 m1 s1 d2 m2 s2\<close> that \<open>int\<close> reads as the numbers
  \<open>D1 M1 S1 D2 M2 S2\<close> (none longer than the limit of the interpreter, when there is one),
  with \<open>D1 + M1/60 + S1/3600\<close> and \<open>D2 + M2/60 + S2/3600\<close> within the range of \<open>float\<close>, a
  letter \<open>h1\<close> that is N or S and a letter \<open>h2\<close> that is E or W, the DMS parser applied to
  \<open>d1\<degree>m1's1"h1 d2\<degree>m2's2"h2\<close> returns the latitude \<open>D1 + M1/60 + S1/3600\<close>, negated exactly
  when \<open>h1\<close> is S, and the longitude \<open>D2 + M2/60 + S2/3600\<close>, negated exactly when \<open>h2\<close> is
  W, and prints nothing. Every natural number has such a digit string (\<open>py_int_dec\<close>,
  \<open>all_digits_dec\<close>).
\<close>

theorem convert_dms_to_decimal_value:
  assumes "all_digits d1" "py_int d1 = D1" "all_digits m1" "py_int m1 = M1"
      and "all_digits s1" "py_int s1 = S1" "h1 \<in> {CHR ''N'', CHR ''S''}"
      and "all_digits d2" "py_int d2 = D2" "all_digits m2" "py_int m2 = M2"
      and "all_digits s2" "py_int s2 = S2" "h2 \<in> {CHR ''E'', CHR ''W''}"
      and "int_max_str_digits lib = 0
           \<or> (length d1 \<le> int_max_str_digits lib \<and> length m1 \<le> int_max_str_digits lib
              \<and> length s1 \<le> int_max_str_digits lib \<and> length d2 \<le> int_max_str_digits lib
              \<and> length m2 \<le> int_max_str_digits lib \<and> length s2 \<le> int_max_str_digits lib)"
      and "of_nat D1 + of_nat M1 / 60 + of_nat S1 / 3600 < float_limit"
      and "of_nat D2 + of_nat M2 / 60 + of_nat S2 / 3600 < float_limit"
  shows "convert_dms_to_decimal lib w (dms_token d1 m1 s1 h1 @ '' '' @ dms_token d2 m2 s2 h2) =
           (Some ((if h1 = CHR ''S'' then - (of_nat D1 + of_nat M1 / 60 + of_nat S1 / 3600)
                   else of_nat D1 + of_nat M1 / 60 + of_nat S1 / 3600),
                  (if h2 = CHR ''W'' then - (of_nat D2 + of_nat M2 / 60 + of_nat S2 / 3600)
                   else of_nat D2 + of_nat M2 / 60 + of_nat S2 / 3600)), w)"
proof -
  have ns1: "\<not> isspace h1" and ns2: "\<not> isspace h2"
    using assms(7,14) by (auto simp: isspace_def)
  have sp: "split_ws (dms_token d1 m1 s1 h1 @ CHR '' '' # dms_token d2 m2 s2 h2) =
              [dms_token d1 m1 s1 h1, dms_token d2 m2 s2 h2]"
    using split_ws_two [of "dms_token d1 m1 s1 h1" "dms_token d2 m2 s2 h2"]
      dms_token_nospace [OF assms(1,3,5) ns1] dms_token_nospace [OF assms(8,10,12) ns2]
    by (simp add: dms_token_def)
  have l1: "int_max_str_digits lib = 0
           \<or> (length d1 \<le> int_max_str_digits lib \<and> length m1 \<le> int_max_str_digits lib
              \<and> length s1 \<le> int_max_str_digits lib)"
   and l2: "int_max_str_digits lib = 0
           \<or> (length d2 \<le> int_max_str_digits lib \<and> length m2 \<le> int_max_str_digits lib
              \<and> length s2 \<le> int_max_str_digits lib)"
    using assms(15) by auto
  have h1: "h1 \<in> set ''NS''" and h2: "h2 \<in> set ''EW''"
    using assms(7,14) by auto
  have v1: "dms_value (py_int d1) (py_int m1) (py_int s1)
              = Inr (of_nat D1 + of_nat M1 / 60 + of_nat S1 / 3600)"
    using dms_value_in_range [of D1 M1 S1] assms(2,4,6,16) by simp
  have v2: "dms_value (py_int d2) (py_int m2) (py_int s2)
              = Inr (of_nat D2 + of_nat M2 / 60 + of_nat S2 / 3600)"
    using dms_value_in_range [of D2 M2 S2] assms(9,11,13,17) by simp
  have p1: "dms_part lib ''NS'' CHR ''S'' (dms_token d1 m1 s1 h1) =
              Inr (if h1 = CHR ''S'' then - (of_nat D1 + of_nat M1 / 60 + of_nat S1 / 3600)
                   else of_nat D1 + of_nat M1 / 60 + of_nat S1 / 3600)"
    using dms_part_token [OF assms(1,3,5) h1 l1, of "CHR ''S''" "[]"] by (simp add: v1)
  have p2: "dms_part lib ''EW'' CHR ''W'' (dms_token d2 m2 s2 h2) =
              Inr (if h2 = CHR ''W'' then - (of_nat D2 + of_nat M2 / 60 + of_nat S2 / 3600)
                   else of_nat D2 + of_nat M2 / 60 + of_nat S2 / 3600)"
    using dms_part_token [OF assms(8,10,12) h2 l2, of "CHR ''W''" "[]"] by (simp add: v2)
  have "convert_dms_body lib (dms_token d1 m1 s1 h1 @ CHR '' '' # dms_token d2 m2 s2 h2) =
          Inr ((if h1 = CHR ''S'' then - (of_nat D1 + of_nat M1 / 60 + of_nat S1 / 3600)
                else of_nat D1 + of_nat M1 / 60 + of_nat S1 / 3600),
               (if h2 = CHR ''W'' then - (of_nat D2 + of_nat M2 / 60 + of_nat S2 / 3600)
                else of_nat D2 + of_nat M2 / 60 + of_nat S2 / 3600))"
    unfolding convert_dms_body_def sp by (simp only: list.case sum.case p1 p2)
  then show ?thesis
    by (simp add: convert_dms_to_decimal_def)
qed

text \<open>
  The example of the specification: \<open>19\<degree>11'19"N 96\<degree>07'32"W\<close> gives
  \<open>(19.188611\<dots>, -96.125555\<dots>)\<close>.
\<close>

theorem convert_dms_to_decimal_value_witness:
  "convert_dms_to_decimal plain_lib world0
     (''19'' @ [degree_sign] @ ''11'' @ [apostrophe] @ ''19'' @ [double_quote] @ ''N''
      @ '' '' @ ''96'' @ [degree_sign] @ ''07'' @ [apostrophe] @ ''32'' @ [double_quote] @ ''W'')
   = (Some (69079 / 3600, - (86513 / 900)), world0)
   \<and> (19.188611 :: rat) \<le> 69079 / 3600 \<and> (69079 / 3600 :: rat) < 19.188612
   \<and> (- 96.125556 :: rat) < - (86513 / 900) \<and> (- (86513 / 900) :: rat) \<le> - 96.125555"
  using convert_dms_to_decimal_value [of "''19''" 19 "''11''" 11 "''19''" 19 "CHR ''N''"
      "''96''" 96 "''07''" 7 "''32''" 32 "CHR ''W''" plain_lib world0]
  by (simp add: all_digits_def isdigit_def py_int_def digit_val_def dms_token_def plain_lib_def
      float_limit_def)

text \<open>
  Claim C6, as stated, fails: the latitude token \<open>19\<degree>11'19"Nxyz\<close> is not of the form
  \<open>digits\<degree>digits'digits"letter\<close>, and the parser still returns a coordinate pair, because
  \<open>re.match\<close> only looks at the start of the token.
\<close>

theorem convert_dms_prefix_counterexample:
  "split_ws (''19'' @ [degree_sign] @ ''11'' @ [apostrophe] @ ''19'' @ [double_quote] @ ''Nxyz''
      @ '' '' @ ''96'' @ [degree_sign] @ ''07'' @ [apostrophe] @ ''32'' @ [double_quote] @ ''W'')
     = [''19'' @ [degree_sign] @ ''11'' @ [apostrophe] @ ''19'' @ [double_quote] @ ''Nxyz'',
        ''96'' @ [degree_sign] @ ''07'' @ [apostrophe] @ ''32'' @ [double_quote] @ ''W'']
   \<and> \<not> exact_dms ''NS'' (''19'' @ [degree_sign] @ ''11'' @ [apostrophe] @ ''19'' @ [double_quote] @ ''Nxyz'')
   \<and> convert_dms_to_decimal plain_lib world0
       (''19'' @ [degree_sign] @ ''11'' @ [apostrophe] @ ''19'' @ [double_quote] @ ''Nxyz''
        @ '' '' @ ''96'' @ [degree_sign] @ ''07'' @ [apostrophe] @ ''32'' @ [double_quote] @ ''W'')
     = (Some (69079 / 3600, - (86513 / 900)), world0)"
  by (simp add: split_ws_def isspace_def degree_sign_def apostrophe_def double_quote_def
      exact_dms_def match_dms_def digits_then_def isdigit_def dms_token_def
      convert_dms_to_decimal_def convert_dms_body_def dms_part_def dms_value_def py_int_def
      digit_val_def int_of_digits_def plain_lib_def true_divide_def int_to_float_def
      float_limit_def)

text \<open>
  Claim C6, amended. For every input, the DMS parser returns no pair whenever the input
  has fewer than two whitespace-separated tokens, or the first token does not start with
  a text \<open>digits\<degree>digits'digits"\<close> followed by N or S, or the second token does not start
  with such a text followed by E or W: it returns a pair only when both tokens start with
  their patterns. What follows the letter in a token, and every token after the second,
  is not looked at.
\<close>

theorem convert_dms_fails_without_prefix:
  "\<not> (\<exists>lat_part lon_part rest p1 r1 p2 r2.
        split_ws s = lat_part # lon_part # rest
        \<and> lat_part = p1 @ r1 \<and> exact_dms ''NS'' p1
        \<and> lon_part = p2 @ r2 \<and> exact_dms ''EW'' p2)
   \<longrightarrow> fst (convert_dms_to_decimal lib w s) = None"
proof -
  have "\<exists>lat_part lon_part rest p1 r1 p2 r2.
        split_ws s = lat_part # lon_part # rest
        \<and> lat_part = p1 @ r1 \<and> exact_dms ''NS'' p1
        \<and> lon_part = p2 @ r2 \<and> exact_dms ''EW'' p2"
    if "fst (convert_dms_to_decimal lib w s) \<noteq> None"
  proof -
    from that obtain lat_part lon_part rest v1 v2 where
      sp: "split_ws s = lat_part # lon_part # rest" and
      1: "dms_part lib ''NS'' CHR ''S'' lat_part = Inr v1" and
      2: "dms_part lib ''EW'' CHR ''W'' lon_part = Inr v2"
      by (auto simp: convert_dms_to_decimal_def convert_dms_body_def
          split: list.splits sum.splits)
    from dms_part_Inr [OF 1] dms_part_Inr [OF 2] sp show ?thesis by blast
  qed
  then show ?thesis by blast
qed

text \<open>
  The parser returns no pair for \<open>19\<degree>11'19"X 96\<degree>07'32"W\<close>, whose first token has the
  letter X, and for the single token \<open>19\<degree>11'19"N\<close>.
\<close>

theorem convert_dms_fails_without_prefix_witness:
  "fst (convert_dms_to_decimal plain_lib world0
       (''19'' @ [degree_sign] @ ''11'' @ [apostrophe] @ ''19'' @ [double_quote] @ ''X''
        @ '' '' @ ''96'' @ [degree_sign] @ ''07'' @ [apostrophe] @ ''32'' @ [double_quote]
        @ ''W'')) = None
   \<and> fst (convert_dms_to_decimal plain_lib world0
       (''19'' @ [degree_sign] @ ''11'' @ [apostrophe] @ ''19'' @ [double_quote] @ ''N'')) = None"
proof -
  let ?t1 = "''19'' @ [degree_sign] @ ''11'' @ [apostrophe] @ ''19'' @ [double_quote] @ ''X''"
  let ?t2 = "''96'' @ [degree_sign] @ ''07'' @ [apostrophe] @ ''32'' @ [double_quote] @ ''W''"
  let ?t3 = "''19'' @ [degree_sign] @ ''11'' @ [apostrophe] @ ''19'' @ [double_quote] @ ''N''"
  have sp: "split_ws (?t1 @ '' '' @ ?t2) = [?t1, ?t2]" "split_ws ?t3 = [?t3]"
    by (simp_all add: split_ws_def isspace_def degree_sign_def apostrophe_def double_quote_def)
  have "match_dms ''NS'' ?t1 = None"
    by (simp add: match_dms_def digits_then_def isdigit_def
        degree_sign_def apostrophe_def double_quote_def)
  then have n1: "\<not> (\<exists>p r. ?t1 = p @ r \<and> exact_dms ''NS'' p)"
    unfolding match_dms_prefix_iff [symmetric] by simp
  have a: "\<not> (\<exists>lat_part lon_part rest p1 r1 p2 r2.
        split_ws (?t1 @ '' '' @ ?t2) = lat_part # lon_part # rest
        \<and> lat_part = p1 @ r1 \<and> exact_dms ''NS'' p1
        \<and> lon_part = p2 @ r2 \<and> exact_dms ''EW'' p2)"
    unfolding sp using n1 by blast
  have b: "\<not> (\<exists>lat_part lon_part rest p1 r1 p2 r2.
        split_ws ?t3 = lat_part # lon_part # rest
        \<and> lat_part = p1 @ r1 \<and> exact_dms ''NS'' p1
        \<and> lon_part = p2 @ r2 \<and> exact_dms ''EW'' p2)"
    unfolding sp by simp
  from convert_dms_fails_without_prefix [of "?t1 @ '' '' @ ?t2" plain_lib world0] a
  have 1: "fst (convert_dms_to_decimal plain_lib world0 (?t1 @ '' '' @ ?t2)) = None"
    by (rule mp)
  from convert_dms_fails_without_prefix [of ?t3 plain_lib world0] b
  have 2: "fst (convert_dms_to_decimal plain_lib world0 ?t3) = None"
    by (rule mp)
  from 1 2 show ?thesis by simp
qed

section \<open>Properties of the store\<close>

lemma map_of_dict_update:
  "map_of (dict_update k v kvs) k' = (if k' = k then Some v else map_of kvs k')"
  by (induction kvs) auto

lemma getitem_setitem:
  "setitem obj k v = Inr obj' \<Longrightarrow> getitem obj' k' = (if k' = k then Inr v else getitem obj k')"
  by (auto simp: setitem_def getitem_def map_of_dict_update split: json.splits)

lemma setitem_ok:
  "getitem obj k0 = Inr x \<Longrightarrow> \<exists>obj'. setitem obj k v = Inr obj'"
  by (auto simp: setitem_def getitem_def split: json.splits)

lemma append_to_list:
  assumes "getitem store key = Inr (JList xs)"
  shows "\<exists>store'. append_to store key x = Inr store'
           \<and> (\<forall>k'. getitem store' k' = (if k' = key then Inr (JList (xs @ [x])) else getitem store k'))"
proof -
  from setitem_ok [OF assms] obtain store' where s: "setitem store key (JList (xs @ [x])) = Inr store'"
    by blast
  then have "append_to store key x = Inr store'"
    using assms by (simp add: append_to_def append_def)
  with getitem_setitem [OF s] show ?thesis by auto
qed

lemma set_metadata_dict:
  assumes "getitem store ''metadata'' = Inr (JDict md)"
  shows "\<exists>store'. set_metadata store key v = Inr store'
           \<and> (\<forall>k'. getitem store' k' =
                 (if k' = ''metadata'' then Inr (JDict (dict_update key v md)) else getitem store k'))"
proof -
  from setitem_ok [OF assms] obtain store' where
    s: "setitem store ''metadata'' (JDict (dict_update key v md)) = Inr store'"
    by blast
  then have "set_metadata store key v = Inr store'"
    using assms by (simp add: set_metadata_def setitem_def)
  with getitem_setitem [OF s] show ?thesis by auto
qed

lemma update_metadata_well_formed:
  assumes p: "getitem store ''pools'' = Inr (JList ps)"
      and n: "getitem store ''no_pools'' = Inr (JList ns)"
      and m: "getitem store ''metadata'' = Inr (JDict md)"
  shows "\<exists>store'. update_metadata now store = (Inr (), store')
           \<and> getitem store' ''pools'' = Inr (JList ps)
           \<and> getitem store' ''no_pools'' = Inr (JList ns)
           \<and> getitem store' ''metadata'' =
               Inr (JDict (dict_update ''last_updated'' (JStr now)
                      (dict_update ''total_no_pools'' (JInt (int (length ns)))
                         (dict_update ''total_pools'' (JInt (int (length ps))) md))))"
proof -
  from set_metadata_dict [OF m, of "''total_pools''" "JInt (int (length ps))"]
  obtain s1 where s1: "set_metadata store ''total_pools'' (JInt (int (length ps))) = Inr s1"
    and g1: "\<And>k'. getitem s1 k' = (if k' = ''metadata''
               then Inr (JDict (dict_update ''total_pools'' (JInt (int (length ps))) md))
               else getitem store k')"
    by blast
  have m1: "getitem s1 ''metadata'' = Inr (JDict (dict_update ''total_pools'' (JInt (int (length ps))) md))"
    by (simp add: g1)
  from set_metadata_dict [OF m1, of "''total_no_pools''" "JInt (int (length ns))"]
  obtain s2 where s2: "set_metadata s1 ''total_no_pools'' (JInt (int (length ns))) = Inr s2"
    and g2: "\<And>k'. getitem s2 k' = (if k' = ''metadata''
               then Inr (JDict (dict_update ''total_no_pools'' (JInt (int (length ns)))
                      (dict_update ''total_pools'' (JInt (int (length ps))) md)))
               else getitem s1 k')"
    by blast
  have m2: "getitem s2 ''metadata'' = Inr (JDict (dict_update ''total_no_pools'' (JInt (int (length ns)))
                      (dict_update ''total_pools'' (JInt (int (length ps))) md)))"
    by (simp add: g2)
  from set_metadata_dict [OF m2, of "''last_updated''" "JStr now"]
  obtain s3 where s3: "set_metadata s2 ''last_updated'' (JStr now) = Inr s3"
    and g3: "\<And>k'. getitem s3 k' = (if k' = ''metadata''
               then Inr (JDict (dict_update ''last_updated'' (JStr now)
                      (dict_update ''total_no_pools'' (JInt (int (length ns)))
                      (dict_update ''total_pools'' (JInt (int (length ps))) md))))
               else getitem s2 k')"
    by blast
  have l1: "len_of store ''pools'' = Inr (length ps)"
    by (simp add: len_of_def len_def p)
  have l2: "len_of s1 ''no_pools'' = Inr (length ns)"
    by (simp add: len_of_def len_def g1 n)
  have "update_metadata now store = (Inr (), s3)"
    by (simp add: update_metadata_def l1 s1 l2 s2 s3)
  moreover have "getitem s3 ''pools'' = Inr (JList ps)" "getitem s3 ''no_pools'' = Inr (JList ns)"
    by (simp_all add: g3 g2 g1 p n)
  ultimately show ?thesis using g3 by auto
qed

lemma add_coordinate_pool:
  assumes t: "lower t \<in> {''pool'', ''piscina'', ''p''}"
      and p: "getitem (coordinates c) ''pools'' = Inr (JList ps)"
      and n: "getitem (coordinates c) ''no_pools'' = Inr (JList ns)"
      and m: "getitem (coordinates c) ''metadata'' = Inr (JDict md)"
  shows "\<exists>store'. add_coordinate w c lat lon t d =
             (Inr True, c\<lparr>coordinates := store'\<rparr>, print (Msg_pool_added d lat lon) w)
           \<and> getitem store' ''pools'' = Inr (JList (ps @ [coord_data lat lon d]))
           \<and> getitem store' ''no_pools'' = Inr (JList ns)
           \<and> getitem store' ''metadata'' =
               Inr (JDict (dict_update ''last_updated'' (JStr (clock w))
                      (dict_update ''total_no_pools'' (JInt (int (length ns)))
                         (dict_update ''total_pools'' (JInt (int (Suc (length ps)))) md))))"
proof -
  from append_to_list [OF p, of "coord_data lat lon d"]
  obtain s1 where a: "append_to (coordinates c) ''pools'' (coord_data lat lon d) = Inr s1"
    and g: "\<And>k'. getitem s1 k' = (if k' = ''pools'' then Inr (JList (ps @ [coord_data lat lon d]))
                                     else getitem (coordinates c) k')"
    by blast
  have "getitem s1 ''pools'' = Inr (JList (ps @ [coord_data lat lon d]))"
       "getitem s1 ''no_pools'' = Inr (JList ns)" "getitem s1 ''metadata'' = Inr (JDict md)"
    by (simp_all add: g n m)
  from update_metadata_well_formed [OF this, of "clock w"]
  obtain s2 where u: "update_metadata (clock w) s1 = (Inr (), s2)"
    and r: "getitem s2 ''pools'' = Inr (JList (ps @ [coord_data lat lon d]))"
       "getitem s2 ''no_pools'' = Inr (JList ns)"
       "getitem s2 ''metadata'' =
               Inr (JDict (dict_update ''last_updated'' (JStr (clock w))
                      (dict_update ''total_no_pools'' (JInt (int (length ns)))
                         (dict_update ''total_pools'' (JInt (int (length (ps @ [coord_data lat lon d])))) md))))"
    by blast
  have "add_coordinate w c lat lon t d =
          (Inr True, c\<lparr>coordinates := s2\<rparr>, print (Msg_pool_added d lat lon) w)"
    using t by (simp add: add_coordinate_def a u print_def)
  with r show ?thesis by auto
qed

lemma add_coordinate_no_pool:
  assumes t: "lower t \<in> {''no_pool'', ''no_piscina'', ''n''}"
      and p: "getitem (coordinates c) ''pools'' = Inr (JList ps)"
      and n: "getitem (coordinates c) ''no_pools'' = Inr (JList ns)"
      and m: "getitem (coordinates c) ''metadata'' = Inr (JDict md)"
  shows "\<exists>store'. add_coordinate w c lat lon t d =
             (Inr True, c\<lparr>coordinates := store'\<rparr>, print (Msg_no_pool_added d lat lon) w)
           \<and> getitem store' ''pools'' = Inr (JList ps)
           \<and> getitem store' ''no_pools'' = Inr (JList (ns @ [coord_data lat lon d]))
           \<and> getitem store' ''metadata'' =
               Inr (JDict (dict_update ''last_updated'' (JStr (clock w))
                      (dict_update ''total_no_pools'' (JInt (int (Suc (length ns))))
                         (dict_update ''total_pools'' (JInt (int (length ps))) md))))"
proof -
  from append_to_list [OF n, of "coord_data lat lon d"]
  obtain s1 where a: "append_to (coordinates c) ''no_pools'' (coord_data lat lon d) = Inr s1"
    and g: "\<And>k'. getitem s1 k' = (if k' = ''no_pools'' then Inr (JList (ns @ [coord_data lat lon d]))
                                     else getitem (coordinates c) k')"
    by blast
  have "getitem s1 ''pools'' = Inr (JList ps)"
       "getitem s1 ''no_pools'' = Inr (JList (ns @ [coord_data lat lon d]))"
       "getitem s1 ''metadata'' = Inr (JDict md)"
    by (simp_all add: g p m)
  from update_metadata_well_formed [OF this, of "clock w"]
  obtain s2 where u: "update_metadata (clock w) s1 = (Inr (), s2)"
    and r: "getitem s2 ''pools'' = Inr (JList ps)"
       "getitem s2 ''no_pools'' = Inr (JList (ns @ [coord_data lat lon d]))"
       "getitem s2 ''metadata'' =
               Inr (JDict (dict_update ''last_updated'' (JStr (clock w))
                      (dict_update ''total_no_pools'' (JInt (int (length (ns @ [coord_data lat lon d]))))
                         (dict_update ''total_pools'' (JInt (int (length ps))) md))))"
    by blast
  have nt: "lower t \<notin> {''pool'', ''piscina'', ''p''}"
    using t by auto
  have "add_coordinate w c lat lon t d =
          (Inr True, c\<lparr>coordinates := s2\<rparr>, print (Msg_no_pool_added d lat lon) w)"
    using t nt by (simp add: add_coordinate_def a u print_def)
  with r show ?thesis by auto
qed

lemma add_coordinate_invalid:
  assumes "lower t \<notin> {''pool'', ''piscina'', ''p'', ''no_pool'', ''no_piscina'', ''n''}"
  shows "add_coordinate w c lat lon t d = (Inr False, c, print Msg_invalid_type w)"
  using assms by (simp add: add_coordinate_def)


text \<open>
  Claim C4. For every category token \<open>t\<close>: when the lowercase of \<open>t\<close> is none of pool,
  piscina, p, no_pool, no_piscina, n, \<open>add_coordinate\<close> returns \<open>False\<close> and leaves the
  collector, whatever its store, exactly as it was. On a store with its two lists and its
  metadata dictionary, the call returns \<open>True\<close> exactly for the six accepted tokens, the
  record is appended to \<open>pools\<close> exactly when the lowercase of \<open>t\<close> is pool, piscina or p, and
  to \<open>no_pools\<close> exactly when it is no_pool, no_piscina or n; the other list keeps its
  records.
\<close>

theorem add_coordinate_category:
  "(lower t \<notin> {''pool'', ''piscina'', ''p'', ''no_pool'', ''no_piscina'', ''n''} \<longrightarrow>
      add_coordinate w c lat lon t d = (Inr False, c, print Msg_invalid_type w))
   \<and> (getitem (coordinates c) ''pools'' = Inr (JList ps)
        \<and> getitem (coordinates c) ''no_pools'' = Inr (JList ns)
        \<and> getitem (coordinates c) ''metadata'' = Inr (JDict md) \<longrightarrow>
      fst (add_coordinate w c lat lon t d) =
        Inr (lower t \<in> {''pool'', ''piscina'', ''p'', ''no_pool'', ''no_piscina'', ''n''})
      \<and> getitem (coordinates (fst (snd (add_coordinate w c lat lon t d)))) ''pools'' =
          Inr (JList (if lower t \<in> {''pool'', ''piscina'', ''p''}
                      then ps @ [coord_data lat lon d] else ps))
      \<and> getitem (coordinates (fst (snd (add_coordinate w c lat lon t d)))) ''no_pools'' =
          Inr (JList (if lower t \<in> {''no_pool'', ''no_piscina'', ''n''}
                      then ns @ [coord_data lat lon d] else ns)))"
proof (intro conjI impI)
  assume "lower t \<notin> {''pool'', ''piscina'', ''p'', ''no_pool'', ''no_piscina'', ''n''}"
  then show "add_coordinate w c lat lon t d = (Inr False, c, print Msg_invalid_type w)"
    by (rule add_coordinate_invalid)
next
  assume wf: "getitem (coordinates c) ''pools'' = Inr (JList ps)
        \<and> getitem (coordinates c) ''no_pools'' = Inr (JList ns)
        \<and> getitem (coordinates c) ''metadata'' = Inr (JDict md)"
  let ?r = "add_coordinate w c lat lon t d"
  have "fst ?r = Inr (lower t \<in> {''pool'', ''piscina'', ''p'', ''no_pool'', ''no_piscina'', ''n''})
      \<and> getitem (coordinates (fst (snd ?r))) ''pools'' =
          Inr (JList (if lower t \<in> {''pool'', ''piscina'', ''p''}
                      then ps @ [coord_data lat lon d] else ps))
      \<and> getitem (coordinates (fst (snd ?r))) ''no_pools'' =
          Inr (JList (if lower t \<in> {''no_pool'', ''no_piscina'', ''n''}
                      then ns @ [coord_data lat lon d] else ns))"
  proof -
    consider (pool) "lower t \<in> {''pool'', ''piscina'', ''p''}"
      | (no_pool) "lower t \<in> {''no_pool'', ''no_piscina'', ''n''}"
      | (other) "lower t \<notin> {''pool'', ''piscina'', ''p'', ''no_pool'', ''no_piscina'', ''n''}"
      by auto
    then show ?thesis
    proof cases
      case pool
      from add_coordinate_pool [OF pool, of c ps ns md w lat lon d] wf pool
      show ?thesis by auto
    next
      case no_pool
      from add_coordinate_no_pool [OF no_pool, of c ps ns md w lat lon d] wf no_pool
      show ?thesis by auto
    next
      case other
      from add_coordinate_invalid [OF other, of w c lat lon d] wf other
      show ?thesis by auto
    qed
  qed
  then show "fst ?r = Inr (lower t \<in> {''pool'', ''piscina'', ''p'', ''no_pool'', ''no_piscina'', ''n''})"
    and "getitem (coordinates (fst (snd ?r))) ''pools'' =
          Inr (JList (if lower t \<in> {''pool'', ''piscina'', ''p''}
                      then ps @ [coord_data lat lon d] else ps))"
    and "getitem (coordinates (fst (snd ?r))) ''no_pools'' =
          Inr (JList (if lower t \<in> {''no_pool'', ''no_piscina'', ''n''}
                      then ns @ [coord_data lat lon d] else ns))"
    by simp_all
qed

text \<open>
  On the initial store: \<open>castle\<close> is refused and nothing changes, \<open>Piscina\<close> adds to
  \<open>pools\<close>, \<open>N\<close> adds to \<open>no_pools\<close> and leaves \<open>pools\<close> empty.
\<close>

theorem add_coordinate_category_witness:
  "add_coordinate world0 collector0 (191738 / 10000) (- (961342 / 10000)) ''castle'' ''x''
     = (Inr False, collector0, print Msg_invalid_type world0)
   \<and> fst (add_coordinate world0 collector0 (191738 / 10000) (- (961342 / 10000)) ''Piscina'' ''Casa1'')
       = Inr True
   \<and> getitem (coordinates (fst (snd (add_coordinate world0 collector0 (191738 / 10000)
        (- (961342 / 10000)) ''Piscina'' ''Casa1'')))) ''pools''
       = Inr (JList [coord_data (191738 / 10000) (- (961342 / 10000)) ''Casa1''])
   \<and> getitem (coordinates (fst (snd (add_coordinate world0 collector0 (191738 / 10000)
        (- (961342 / 10000)) ''N'' ''Casa2'')))) ''no_pools''
       = Inr (JList [coord_data (191738 / 10000) (- (961342 / 10000)) ''Casa2''])
   \<and> getitem (coordinates (fst (snd (add_coordinate world0 collector0 (191738 / 10000)
        (- (961342 / 10000)) ''N'' ''Casa2'')))) ''pools''
       = Inr (JList [])"
proof -
  let ?md = "[(''total_pools'', JInt 0), (''total_no_pools'', JInt 0), (''last_updated'', JStr [])]"
  have wf: "getitem (coordinates collector0) ''pools'' = Inr (JList [])
        \<and> getitem (coordinates collector0) ''no_pools'' = Inr (JList [])
        \<and> getitem (coordinates collector0) ''metadata'' = Inr (JDict ?md)"
    by (simp add: collector0_def initial_coordinates_def getitem_def)
  have l: "lower ''castle'' = ''castle''" "lower ''Piscina'' = ''piscina''" "lower ''N'' = ''n''"
    by code_simp+
  show ?thesis
    using wf
      add_coordinate_category [of "''castle''" world0 collector0 "191738 / 10000"
          "- (961342 / 10000)" "''x''" "[]" "[]" ?md]
      add_coordinate_category [of "''Piscina''" world0 collector0 "191738 / 10000"
          "- (961342 / 10000)" "''Casa1''" "[]" "[]" ?md]
      add_coordinate_category [of "''N''" world0 collector0 "191738 / 10000"
          "- (961342 / 10000)" "''Casa2''" "[]" "[]" ?md]
    unfolding l by simp
qed

section \<open>Properties of the input parser\<close>

lemma split_sep_nonempty: "split_sep sep cur s \<noteq> []"
  by (induction s arbitrary: cur) auto

lemma split_sep_no_sep:
  "sep \<notin> set cur \<Longrightarrow> \<forall>p \<in> set (split_sep sep cur s). sep \<notin> set p"
proof (induction s arbitrary: cur)
  case Nil
  then show ?case by simp
next
  case (Cons c s)
  show ?case
  proof (cases "c = sep")
    case True
    with Cons.IH [of "[]"] Cons.prems show ?thesis by simp
  next
    case False
    with Cons.IH [of "cur @ [c]"] Cons.prems show ?thesis by simp
  qed
qed

lemma split_sep_field:
  "sep \<notin> set p \<Longrightarrow> split_sep sep cur (p @ sep # rest) = (cur @ p) # split_sep sep [] rest"
  by (induction p arbitrary: cur) auto

lemma split_sep_last: "sep \<notin> set p \<Longrightarrow> split_sep sep cur p = [cur @ p]"
  by (induction p arbitrary: cur) auto

lemma split_on_join:
  "ps \<noteq> [] \<Longrightarrow> \<forall>p \<in> set ps. sep \<notin> set p \<Longrightarrow> split_on sep (join_sep sep ps) = ps"
  unfolding split_on_def
proof (induction sep ps rule: join_sep.induct)
  case (1 sep)
  then show ?case by simp
next
  case (2 sep p)
  then show ?case by (simp add: split_sep_last)
next
  case (3 sep p q ps)
  then show ?case by (simp add: split_sep_field)
qed

lemma join_split_sep: "join_sep sep (split_sep sep cur s) = cur @ s"
proof (induction s arbitrary: cur)
  case Nil
  then show ?case by simp
next
  case (Cons c s)
  show ?case
  proof (cases "c = sep")
    case True
    obtain q qs where "split_sep sep [] s = q # qs"
      using split_sep_nonempty [of sep "[]" s] by (cases "split_sep sep [] s") auto
    with Cons [of "[]"] True show ?thesis by simp
  next
    case False
    with Cons [of "cur @ [c]"] show ?thesis by simp
  qed
qed

lemma set_join_take: "set (join_sep sep (take n ps)) \<subseteq> set (join_sep sep ps)"
proof (induction sep ps arbitrary: n rule: join_sep.induct)
  case (1 sep)
  then show ?case by simp
next
  case (2 sep p)
  then show ?case by (cases n) auto
next
  case (3 sep p q ps)
  show ?case
  proof (cases n)
    case 0
    then show ?thesis by simp
  next
    case (Suc m)
    show ?thesis
    proof (cases m)
      case 0
      with Suc show ?thesis by auto
    next
      case (Suc k)
      with \<open>n = Suc m\<close> 3 [of m] show ?thesis by auto
    qed
  qed
qed

lemma set_truncated: "set (join_sep sep (take n (split_on sep s))) \<subseteq> set s"
  using set_join_take [of sep n "split_on sep s"] join_split_sep [of sep "[]" s]
  by (simp add: split_on_def)

lemma split_on_truncated:
  assumes "0 < n"
  shows "split_on sep (join_sep sep (take n (split_on sep s))) = take n (split_on sep s)"
proof (rule split_on_join)
  show "take n (split_on sep s) \<noteq> []"
    using assms split_sep_nonempty [of sep "[]" s] by (simp add: split_on_def)
  show "\<forall>p \<in> set (take n (split_on sep s)). sep \<notin> set p"
    using split_sep_no_sep [of sep "[]" s] by (auto simp: split_on_def dest: in_set_takeD)
qed

text \<open>
  Claim C8. For an input that is not taken as DMS (it lacks one of the three markers),
  with \<open>parts\<close> its comma-separated fields: with fewer than two fields parsing fails; with
  at least two fields of which the first or the second is not a float, parsing fails;
  with three fields the third, stripped, is the category; with four or more fields the
  third is the category and the fourth the description, and the result, the console
  included, is that of the input cut to its first four fields.
\<close>

theorem parse_decimal_fields:
  assumes dec: "\<not> (degree_sign \<in> set s \<and> apostrophe \<in> set s \<and> double_quote \<in> set s)"
      and parts: "parts = split_on CHR '','' s"
  shows "(length parts < 2 \<longrightarrow>
            parse_coordinate_input lib w s = (None, print Msg_bad_format w))
       \<and> (2 \<le> length parts
            \<and> (float_of_string lib (strip (parts ! 0)) = None
                \<or> float_of_string lib (strip (parts ! 1)) = None) \<longrightarrow>
            parse_coordinate_input lib w s = (None, print Msg_bad_number w))
       \<and> (length parts = 3
            \<and> float_of_string lib (strip (parts ! 0)) = Some lat
            \<and> float_of_string lib (strip (parts ! 1)) = Some lon \<longrightarrow>
            parse_coordinate_input lib w s =
              (Some (lat, lon, strip (parts ! 2), default_description (repr_float lib) lat lon), w))
       \<and> (4 \<le> length parts
            \<and> float_of_string lib (strip (parts ! 0)) = Some lat
            \<and> float_of_string lib (strip (parts ! 1)) = Some lon \<longrightarrow>
            parse_coordinate_input lib w s =
              (Some (lat, lon, strip (parts ! 2), strip (parts ! 3)), w))
       \<and> (4 \<le> length parts \<longrightarrow>
            parse_coordinate_input lib w s =
              parse_coordinate_input lib w (join_sep CHR '','' (take 4 parts)))"
proof (intro conjI impI)
  assume "length parts < 2"
  then show "parse_coordinate_input lib w s = (None, print Msg_bad_format w)"
    using dec parts by (auto simp: parse_coordinate_input_def parse_coordinate_body_def Let_def)
next
  assume "2 \<le> length parts
            \<and> (float_of_string lib (strip (parts ! 0)) = None
                \<or> float_of_string lib (strip (parts ! 1)) = None)"
  then show "parse_coordinate_input lib w s = (None, print Msg_bad_number w)"
    using dec parts
    by (auto simp: parse_coordinate_input_def parse_coordinate_body_def Let_def
        split: option.splits)
next
  assume "length parts = 3
            \<and> float_of_string lib (strip (parts ! 0)) = Some lat
            \<and> float_of_string lib (strip (parts ! 1)) = Some lon"
  then show "parse_coordinate_input lib w s =
              (Some (lat, lon, strip (parts ! 2), default_description (repr_float lib) lat lon), w)"
    using dec parts
    by (auto simp: parse_coordinate_input_def parse_coordinate_body_def Let_def)
next
  assume "4 \<le> length parts
            \<and> float_of_string lib (strip (parts ! 0)) = Some lat
            \<and> float_of_string lib (strip (parts ! 1)) = Some lon"
  then show "parse_coordinate_input lib w s =
              (Some (lat, lon, strip (parts ! 2), strip (parts ! 3)), w)"
    using dec parts
    by (auto simp: parse_coordinate_input_def parse_coordinate_body_def Let_def)
next
  assume len: "4 \<le> length parts"
  let ?t = "join_sep CHR '','' (take 4 parts)"
  have sp: "split_on CHR '','' ?t = take 4 parts"
    unfolding parts by (rule split_on_truncated) simp
  have "set ?t \<subseteq> set s"
    unfolding parts by (rule set_truncated)
  with dec have dec': "\<not> (degree_sign \<in> set ?t \<and> apostrophe \<in> set ?t \<and> double_quote \<in> set ?t)"
    by blast
  have "parse_coordinate_body lib w s = parse_coordinate_body lib w ?t"
    unfolding parse_coordinate_body_def if_not_P [OF dec] if_not_P [OF dec'] sp parts [symmetric]
    using len by (simp add: Let_def cong: option.case_cong)
  then show "parse_coordinate_input lib w s = parse_coordinate_input lib w ?t"
    by (simp add: parse_coordinate_input_def)
qed

text \<open>
  With the library instance: five fields give the same result as the first four, a
  first field that is no number fails, and a single field fails.
\<close>

theorem parse_decimal_fields_witness:
  "parse_coordinate_input plain_lib world0 ''19.1738,-96.1342,piscina,Casa1,extra''
     = (Some (191738 / 10000, - (961342 / 10000), ''piscina'', ''Casa1''), world0)
   \<and> parse_coordinate_input plain_lib world0 ''19.1738,-96.1342,piscina,Casa1,extra''
     = parse_coordinate_input plain_lib world0 ''19.1738,-96.1342,piscina,Casa1''
   \<and> parse_coordinate_input plain_lib world0 ''19.1738,-96.1342,pool''
     = (Some (191738 / 10000, - (961342 / 10000), ''pool'', ''Coord_19.1738_-96.1342''), world0)
   \<and> parse_coordinate_input plain_lib world0 ''north,-96.1342,pool''
     = (None, print Msg_bad_number world0)
   \<and> parse_coordinate_input plain_lib world0 ''19.1738''
     = (None, print Msg_bad_format world0)"
proof -
  have f1: "float_of_string plain_lib (strip ''19.1738'') = Some (191738 / 10000)"
   and f2: "float_of_string plain_lib (strip ''-96.1342'') = Some (- (961342 / 10000))"
   and f3: "float_of_string plain_lib (strip ''north'') = None"
    by (simp_all add: plain_lib_def float_eval)
  have d: "default_description (repr_float plain_lib) (191738 / 10000) (- (961342 / 10000))
             = ''Coord_19.1738_-96.1342''"
    by (simp add: plain_lib_def format_eval)
  have m: "\<And>s. degree_sign \<notin> set s \<Longrightarrow>
             \<not> (degree_sign \<in> set s \<and> apostrophe \<in> set s \<and> double_quote \<in> set s)"
    by simp
  have p5: "[''19.1738'', ''-96.1342'', ''piscina'', ''Casa1'', ''extra'']
             = split_on CHR '','' ''19.1738,-96.1342,piscina,Casa1,extra''"
   and p3: "[''19.1738'', ''-96.1342'', ''pool''] = split_on CHR '','' ''19.1738,-96.1342,pool''"
   and p3b: "[''north'', ''-96.1342'', ''pool''] = split_on CHR '','' ''north,-96.1342,pool''"
   and p1: "[''19.1738''] = split_on CHR '','' ''19.1738''"
    by (simp_all add: split_on_def)
  note s5 = parse_decimal_fields [OF m p5, of plain_lib world0 "191738 / 10000" "- (961342 / 10000)"]
  note s3 = parse_decimal_fields [OF m p3, of plain_lib world0 "191738 / 10000" "- (961342 / 10000)"]
  note s3b = parse_decimal_fields [OF m p3b, of plain_lib world0]
  note s1 = parse_decimal_fields [OF m p1, of plain_lib world0]
  have r5: "parse_coordinate_input plain_lib world0 ''19.1738,-96.1342,piscina,Casa1,extra''
     = (Some (191738 / 10000, - (961342 / 10000), ''piscina'', ''Casa1''), world0)"
    using s5 f1 f2 by (simp add: degree_sign_def strip_def isspace_def)
  have t5: "parse_coordinate_input plain_lib world0 ''19.1738,-96.1342,piscina,Casa1,extra''
     = parse_coordinate_input plain_lib world0 ''19.1738,-96.1342,piscina,Casa1''"
    using s5 by (simp add: degree_sign_def)
  have r3: "parse_coordinate_input plain_lib world0 ''19.1738,-96.1342,pool''
     = (Some (191738 / 10000, - (961342 / 10000), ''pool'', ''Coord_19.1738_-96.1342''), world0)"
    using s3 f1 f2 d by (simp add: degree_sign_def strip_def isspace_def)
  have r3b: "parse_coordinate_input plain_lib world0 ''north,-96.1342,pool''
     = (None, print Msg_bad_number world0)"
    using s3b f3 by (simp add: degree_sign_def)
  have r1: "parse_coordinate_input plain_lib world0 ''19.1738''
     = (None, print Msg_bad_format world0)"
    using s1 by (simp add: degree_sign_def)
  from r5 t5 r3 r3b r1 show ?thesis by (intro conjI)
qed

text \<open>
  Claim C5 at the input \<open>19.17384,-96.13421,pool\<close>: the three-field branch builds the
  default description from the floats as \<open>f"{lat}"\<close> writes them, not rounded, and gives
  \<open>Coord_19.17384_-96.13421\<close>. The two-field branch, asked for a description and given an
  empty line, rounds to four decimals and gives \<open>Coord_19.1738_-96.1342\<close> for the same
  coordinates.
\<close>

theorem three_field_description_not_rounded:
  "parse_coordinate_input plain_lib world0 ''19.17384,-96.13421,pool''
     = (Some (1917384 / 100000, - (9613421 / 100000), ''pool'', ''Coord_19.17384_-96.13421''),
        world0)
   \<and> fst (parse_coordinate_input plain_lib (world0\<lparr>stdin := [''pool'', '''']\<rparr>)
          ''19.17384,-96.13421'')
     = Some (1917384 / 100000, - (9613421 / 100000), ''pool'', ''Coord_19.1738_-96.1342'')"
proof -
  have f1: "float_plain ''19.17384'' = Some (1917384 / 100000)"
   and f2: "float_plain ''-96.13421'' = Some (- (9613421 / 100000))"
    by (simp_all add: float_eval)
  have d: "default_description repr_plain (1917384 / 100000) (- (9613421 / 100000))
             = ''Coord_19.17384_-96.13421''"
    by (simp add: format_eval)
  have d4: "default_description format_4f_plain (1917384 / 100000) (- (9613421 / 100000))
             = ''Coord_19.1738_-96.1342''"
    by (simp add: format_eval)
  have 1: "parse_coordinate_input plain_lib world0 ''19.17384,-96.13421,pool''
     = (Some (1917384 / 100000, - (9613421 / 100000), ''pool'', ''Coord_19.17384_-96.13421''),
        world0)"
    using f1 f2 d
    by (simp add: parse_coordinate_input_def parse_coordinate_body_def split_on_def
        degree_sign_def plain_lib_def strip_def isspace_def)
  have 2: "fst (parse_coordinate_input plain_lib (world0\<lparr>stdin := [''pool'', '''']\<rparr>)
          ''19.17384,-96.13421'')
     = Some (1917384 / 100000, - (9613421 / 100000), ''pool'', ''Coord_19.1738_-96.1342'')"
    using f1 f2 d4
    by (simp add: parse_coordinate_input_def parse_coordinate_body_def split_on_def
        degree_sign_def plain_lib_def strip_def isspace_def ask_type_and_description_def
        py_input_def print_def world0_def)
  from 1 2 show ?thesis by (intro conjI)
qed

section \<open>Properties of an entry of the interactive loop\<close>

text \<open>
  Claim C7, as stated, fails: the entry \<open>100.5,200.25,pool,Far\<close> is added to \<open>pools\<close> with
  latitude 100.5 and longitude 200.25, outside \<open>[-90, 90]\<close> and \<open>[-180, 180]\<close>.
\<close>

theorem process_entry_out_of_range_counterexample:
  "getitem (coordinates (fst (snd (process_entry plain_lib world0 collector0
      ''100.5,200.25,pool,Far'')))) ''pools''
     = Inr (JList [JDict [(''lat'', JFloat (201 / 2)), (''lon'', JFloat (801 / 4)),
                          (''description'', JStr ''Far''), (''captured'', JBool False)]])
   \<and> (90 :: rat) < 201 / 2 \<and> (180 :: rat) < 801 / 4"
proof -
  have f1: "float_plain ''100.5'' = Some (201 / 2)"
   and f2: "float_plain ''200.25'' = Some (801 / 4)"
    by (simp_all add: float_eval)
  have p: "parse_coordinate_input plain_lib world0 ''100.5,200.25,pool,Far''
             = (Some (201 / 2, 801 / 4, ''pool'', ''Far''), world0)"
    using f1 f2
    by (simp add: parse_coordinate_input_def parse_coordinate_body_def split_on_def
        degree_sign_def plain_lib_def strip_def isspace_def)
  have l: "lower ''pool'' = ''pool''"
    by (simp add: lower_def lower_char_def)
  have a: "add_coordinate world0 collector0 (201 / 2) (801 / 4) ''pool'' ''Far''
      = (Inr True,
         collector0\<lparr>coordinates :=
           JDict [(''pools'', JList [coord_data (201 / 2) (801 / 4) ''Far'']),
                  (''no_pools'', JList []),
                  (''metadata'', JDict [(''total_pools'', JInt 1),
                                        (''total_no_pools'', JInt 0),
                                        (''last_updated'', JStr (clock world0))])]\<rparr>,
         print (Msg_pool_added ''Far'' (201 / 2) (801 / 4)) world0)"
    by (simp add: add_coordinate_def l collector0_def initial_coordinates_def append_to_def
        getitem_def setitem_def append_def update_metadata_def len_of_def len_def
        set_metadata_def print_def)
  show ?thesis
    by (simp add: process_entry_def p a getitem_def coord_data_def)
qed

text \<open>
  Claim C7, amended. When the parser returns a tuple for an entry, the entry is
  processed without an exception on a store with its two lists and its metadata
  dictionary, and the record added to the list of its category carries exactly the
  latitude and the longitude the parser returned, whatever their values: neither the
  parser nor \<open>add_coordinate\<close> compares them with a range.
\<close>

theorem process_entry_stores_parsed:
  assumes parse: "parse_coordinate_input lib w s = (Some (lat, lon, t, d), w1)"
      and p: "getitem (coordinates c) ''pools'' = Inr (JList ps)"
      and n: "getitem (coordinates c) ''no_pools'' = Inr (JList ns)"
      and m: "getitem (coordinates c) ''metadata'' = Inr (JDict md)"
  shows "fst (process_entry lib w c s) = Inr ()
       \<and> getitem (coordinates (fst (snd (process_entry lib w c s)))) ''pools'' =
           Inr (JList (if lower t \<in> {''pool'', ''piscina'', ''p''}
                       then ps @ [coord_data lat lon d] else ps))
       \<and> getitem (coordinates (fst (snd (process_entry lib w c s)))) ''no_pools'' =
           Inr (JList (if lower t \<in> {''no_pool'', ''no_piscina'', ''n''}
                       then ns @ [coord_data lat lon d] else ns))"
proof -
  consider (pool) "lower t \<in> {''pool'', ''piscina'', ''p''}"
    | (no_pool) "lower t \<in> {''no_pool'', ''no_piscina'', ''n''}"
    | (other) "lower t \<notin> {''pool'', ''piscina'', ''p'', ''no_pool'', ''no_piscina'', ''n''}"
    by auto
  then show ?thesis
  proof cases
    case pool
    from add_coordinate_pool [OF pool p n m, of w1 lat lon d] pool
    show ?thesis by (auto simp: process_entry_def parse)
  next
    case no_pool
    from add_coordinate_no_pool [OF no_pool p n m, of w1 lat lon d] no_pool
    show ?thesis by (auto simp: process_entry_def parse)
  next
    case other
    from add_coordinate_invalid [OF other, of w1 c lat lon d] other p n
    show ?thesis by (auto simp: process_entry_def parse)
  qed
qed


text \<open>The DMS entry \<open>91\<degree>0'0"N 181\<degree>0'0"E\<close>, typed as a pool, is stored as \<open>(91, 181)\<close>.\<close>

theorem process_entry_stores_parsed_witness:
  "fst (process_entry plain_lib (world0\<lparr>stdin := [''pool'', ''Polo'']\<rparr>) collector0
      (''91'' @ [degree_sign] @ ''0'' @ [apostrophe] @ ''0'' @ [double_quote] @ ''N''
       @ '' '' @ ''181'' @ [degree_sign] @ ''0'' @ [apostrophe] @ ''0'' @ [double_quote] @ ''E''))
     = Inr ()
   \<and> getitem (coordinates (fst (snd (process_entry plain_lib
        (world0\<lparr>stdin := [''pool'', ''Polo'']\<rparr>) collector0
        (''91'' @ [degree_sign] @ ''0'' @ [apostrophe] @ ''0'' @ [double_quote] @ ''N''
         @ '' '' @ ''181'' @ [degree_sign] @ ''0'' @ [apostrophe] @ ''0'' @ [double_quote] @ ''E''))))) ''pools''
     = Inr (JList [coord_data 91 181 ''Polo''])"
proof -
  let ?w = "world0\<lparr>stdin := [''pool'', ''Polo'']\<rparr>"
  let ?s = "''91'' @ [degree_sign] @ ''0'' @ [apostrophe] @ ''0'' @ [double_quote] @ ''N''
       @ '' '' @ ''181'' @ [degree_sign] @ ''0'' @ [apostrophe] @ ''0'' @ [double_quote] @ ''E''"
  have c: "convert_dms_to_decimal plain_lib (print Msg_dms_detected ?w) ?s
             = (Some (91, 181), print Msg_dms_detected ?w)"
    by (simp add: split_ws_def isspace_def degree_sign_def apostrophe_def double_quote_def
      match_dms_def digits_then_def isdigit_def
      convert_dms_to_decimal_def convert_dms_body_def dms_part_def dms_value_def py_int_def
      digit_val_def int_of_digits_def plain_lib_def true_divide_def int_to_float_def
      float_limit_def)
  have "\<exists>w1. parse_coordinate_input plain_lib ?w ?s = (Some (91, 181, ''pool'', ''Polo''), w1)"
    unfolding parse_coordinate_input_def parse_coordinate_body_def c
    by (simp add: degree_sign_def apostrophe_def double_quote_def ask_type_and_description_def
        py_input_def print_def world0_def strip_def isspace_def)
  then obtain w1 where
    p: "parse_coordinate_input plain_lib ?w ?s = (Some (91, 181, ''pool'', ''Polo''), w1)"
    by blast
  have wf: "getitem (coordinates collector0) ''pools'' = Inr (JList [])"
    "getitem (coordinates collector0) ''no_pools'' = Inr (JList [])"
    "getitem (coordinates collector0) ''metadata'' = Inr (JDict
       [(''total_pools'', JInt 0), (''total_no_pools'', JInt 0), (''last_updated'', JStr [])])"
    by (simp_all add: collector0_def initial_coordinates_def getitem_def)
  have l: "lower ''pool'' = ''pool''"
    by (simp add: lower_def lower_char_def)
  from process_entry_stores_parsed [OF p wf] show ?thesis
    by (simp add: l)
qed

section \<open>Properties of loading and saving\<close>

text \<open>
  Claim C10. \<open>load_existing\<close> leaves the collector as it is (at construction: with the
  initial store) when the file is absent, when it cannot be read and when the JSON reader
  raises; when the reader returns a value, that value replaces the store whatever its
  shape, with no validation.
\<close>

theorem load_existing_wholesale:
  "(files w (coordinates_file c) = None \<longrightarrow> load_existing lib w c = (c, w))
   \<and> (files w (coordinates_file c) = Some text
        \<and> (read_denied w (coordinates_file c) \<or> json_loads lib text = None) \<longrightarrow>
      fst (load_existing lib w c) = c)
   \<and> (files w (coordinates_file c) = Some text \<and> \<not> read_denied w (coordinates_file c)
        \<and> json_loads lib text = Some j \<longrightarrow>
      fst (load_existing lib w c) = c\<lparr>coordinates := j\<rparr>)"
  by (auto simp: load_existing_def Let_def split: sum.splits)

text \<open>
  A file \<open>{"foo": 1}\<close> becomes the store of a new collector, and the message built from
  the two lengths is replaced by the report of a \<open>KeyError\<close>; without a file, and with a
  file that is not JSON, the store is the initial one.
\<close>

theorem load_existing_wholesale_witness:
  \<open>fst (new_collector plain_lib
     (world0\<lparr>files := [''scripts_automatizadores/coordinates.json'' \<mapsto> ''{"foo": 1}'']\<rparr>))
     = collector0\<lparr>coordinates := JDict [(''foo'', JInt 1)]\<rparr>
   \<and> stdout (snd (new_collector plain_lib
     (world0\<lparr>files := [''scripts_automatizadores/coordinates.json'' \<mapsto> ''{"foo": 1}'']\<rparr>)))
     = [Msg_load_error (KeyError ''pools'')]
   \<and> fst (new_collector plain_lib world0) = collector0
   \<and> fst (new_collector plain_lib
     (world0\<lparr>files := [''scripts_automatizadores/coordinates.json'' \<mapsto> ''{"foo": 1'']\<rparr>))
     = collector0\<close>
proof -
  let ?p = "''scripts_automatizadores/coordinates.json''"
  let ?w = \<open>world0\<lparr>files := [?p \<mapsto> ''{"foo": 1}'']\<rparr>\<close>
  let ?w' = \<open>world0\<lparr>files := [?p \<mapsto> ''{"foo": 1'']\<rparr>\<close>
  have l: \<open>json_loads plain_lib ''{"foo": 1}'' = Some (JDict [(''foo'', JInt 1)])\<close>
    by (simp add: plain_lib_def json_eval)
  have l': \<open>json_loads plain_lib ''{"foo": 1'' = None\<close>
    by (simp add: plain_lib_def json_eval)
  have f: \<open>files ?w (coordinates_file collector0) = Some ''{"foo": 1}''\<close>
    \<open>files ?w' (coordinates_file collector0) = Some ''{"foo": 1''\<close>
    "files world0 (coordinates_file collector0) = None"
    "\<not> read_denied ?w (coordinates_file collector0)"
    by (simp_all add: collector0_def world0_def)
  have n: "\<And>w. new_collector plain_lib w = load_existing plain_lib w collector0"
    by (simp add: new_collector_def collector0_def)
  from load_existing_wholesale [of ?w collector0 plain_lib _ "JDict [(''foo'', JInt 1)]"] f l
  have 1: "fst (load_existing plain_lib ?w collector0)
             = collector0\<lparr>coordinates := JDict [(''foo'', JInt 1)]\<rparr>"
    by simp
  have 2: "stdout (snd (load_existing plain_lib ?w collector0))
             = [Msg_load_error (KeyError ''pools'')]"
    by (simp add: load_existing_def l collector0_def world0_def len_of_def getitem_def print_def)
  from load_existing_wholesale [of world0 collector0 plain_lib] f
  have 3: "fst (load_existing plain_lib world0 collector0) = collector0"
    by simp
  from load_existing_wholesale [of ?w' collector0 plain_lib] f l'
  have 4: "fst (load_existing plain_lib ?w' collector0) = collector0"
    by simp
  from 1 2 3 4 show ?thesis unfolding n by (intro conjI)
qed

text \<open>
  Claim C9. When the file cannot be opened for writing, \<open>save_coordinates\<close> prints the
  error and returns the collector unchanged, the world changed by that message only; a
  later save of the same collector in a world where the file can be written leaves the
  collector unchanged again and writes the text of its store.
\<close>

theorem save_failure_keeps_store:
  "(write_denied w (coordinates_file c) \<longrightarrow>
      save_coordinates lib w c = (c, print (Msg_save_error OSError) w))
   \<and> (\<not> write_denied w' (coordinates_file c) \<longrightarrow>
      fst (save_coordinates lib w' c) = c
      \<and> files (snd (save_coordinates lib w' c)) (coordinates_file c)
          = Some (json_dumps lib (coordinates c)))"
  by (auto simp: save_coordinates_def Let_def print_def split: sum.splits)

















section \<open>The properties of loading and saving on given files\<close>



lemma roundtrip_store_2_1: "loads (dump 0 store_2_1) = Some store_2_1"
  unfolding store_2_1_def coord_data_def by (simp add: dump_eval format_eval json_eval)






text \<open>
  A save that cannot write reports the error and changes nothing else; the save repeated
  where the file can be written writes the text of the same store, which reads back as
  that store.
\<close>

theorem save_failure_keeps_store_witness:
  "save_coordinates plain_lib (world0\<lparr>write_denied := \<lambda>_. True\<rparr>)
       (collector0\<lparr>coordinates := store_2_1\<rparr>)
     = (collector0\<lparr>coordinates := store_2_1\<rparr>,
        print (Msg_save_error OSError) (world0\<lparr>write_denied := \<lambda>_. True\<rparr>))
   \<and> fst (save_coordinates plain_lib world0 (collector0\<lparr>coordinates := store_2_1\<rparr>))
     = collector0\<lparr>coordinates := store_2_1\<rparr>
   \<and> files (snd (save_coordinates plain_lib world0 (collector0\<lparr>coordinates := store_2_1\<rparr>)))
        ''scripts_automatizadores/coordinates.json''
     = Some (dump 0 store_2_1)
   \<and> loads (dump 0 store_2_1) = Some store_2_1"
  using save_failure_keeps_store [where w = "world0\<lparr>write_denied := \<lambda>_. True\<rparr>"
      and c = "collector0\<lparr>coordinates := store_2_1\<rparr>" and w' = world0 and lib = plain_lib]
    roundtrip_store_2_1
  by (simp add: world0_def collector0_def plain_lib_def)




end
